theory Spec2Isabelle
  imports Complex_Main "HOL-Library.AList"
begin

section \<open>Python values\<close>

text \<open>
  The engine of \<^verbatim>\<open>adb.py\<close> stores JSON-like documents. A value is \<^verbatim>\<open>None\<close>, a
  \<^verbatim>\<open>bool\<close>, an \<^verbatim>\<open>int\<close>, a \<^verbatim>\<open>str\<close>, a \<^verbatim>\<open>list\<close> or a \<^verbatim>\<open>dict\<close> with string keys.
  Floating point numbers are left out. A \<^verbatim>\<open>dict\<close> is an association list in
  insertion order whose keys are distinct; \<^verbatim>\<open>d[k] = v\<close> is \<open>AList.update k v d\<close>
  (an existing key keeps its place, a new key goes to the end) and \<^verbatim>\<open>k in d\<close> is
  \<open>map_of d k \<noteq> None\<close>. A string is a list of characters, one per code point; the
  model covers ASCII text. Integers are unbounded, as Python's are.
\<close>

datatype pyval =
    VNone
  | VBool bool
  | VInt int
  | VStr string
  | VList "pyval list"
  | VDict "(string \<times> pyval) list"

type_synonym pyrecord = "(string \<times> pyval) list"

type_synonym cond = "(string \<times> pyval) list"

text \<open>
  The exceptions of the module (\<^verbatim>\<open>ADBError\<close> and its subclasses
  \<^verbatim>\<open>ValidationError\<close> and \<^verbatim>\<open>TableNotFoundError\<close>), the built-in exceptions the
  modelled code can raise, and \<open>Exception msg\<close> for an exception raised by the
  caller inside a transaction body. Messages of the module's own exceptions are
  not modelled.
\<close>

datatype error =
    ADBError
  | ValidationError
  | TableNotFoundError
  | TypeError
  | AttributeError
  | KeyError
  | ValueError
  | Exception string

subsection \<open>Equality\<close>

text \<open>
  Python's \<^verbatim>\<open>==\<close>: \<^verbatim>\<open>True == 1\<close> and \<^verbatim>\<open>False == 0\<close>, lists are compared
  element by element, dicts as mappings (same length, every item of the left one
  found in the right one). \<^verbatim>\<open>a != b\<close> is its negation on these values.
\<close>

fun py_eq :: "pyval \<Rightarrow> pyval \<Rightarrow> bool"
  and py_eq_list :: "pyval list \<Rightarrow> pyval list \<Rightarrow> bool"
  and py_dict_le :: "(string \<times> pyval) list \<Rightarrow> (string \<times> pyval) list \<Rightarrow> bool"
where
  "py_eq VNone y = (case y of VNone \<Rightarrow> True | _ \<Rightarrow> False)"
| "py_eq (VBool a) y =
     (case y of VBool b \<Rightarrow> a = b | VInt j \<Rightarrow> of_bool a = j | _ \<Rightarrow> False)"
| "py_eq (VInt i) y =
     (case y of VBool b \<Rightarrow> i = of_bool b | VInt j \<Rightarrow> i = j | _ \<Rightarrow> False)"
| "py_eq (VStr s) y = (case y of VStr t \<Rightarrow> s = t | _ \<Rightarrow> False)"
| "py_eq (VList xs) y = (case y of VList ys \<Rightarrow> py_eq_list xs ys | _ \<Rightarrow> False)"
| "py_eq (VDict d) y =
     (case y of VDict e \<Rightarrow> length d = length e \<and> py_dict_le d e | _ \<Rightarrow> False)"
| "py_eq_list [] ys = (ys = [])"
| "py_eq_list (x # xs) ys =
     (case ys of [] \<Rightarrow> False | y # ys' \<Rightarrow> py_eq x y \<and> py_eq_list xs ys')"
| "py_dict_le [] e = True"
| "py_dict_le ((k, v) # d) e =
     (case map_of e k of None \<Rightarrow> False | Some w \<Rightarrow> py_eq v w \<and> py_dict_le d e)"

text \<open>
  Only \<^verbatim>\<open>None\<close>, \<^verbatim>\<open>bool\<close>, \<^verbatim>\<open>int\<close> and \<^verbatim>\<open>str\<close> values are hashable: a list or
  a dict used as a dictionary key raises \<^verbatim>\<open>TypeError\<close>.
\<close>

fun hashable :: "pyval \<Rightarrow> bool" where
  "hashable (VList xs) = False"
| "hashable (VDict d) = False"
| "hashable v = True"

subsection \<open>The integer-to-string limit\<close>

text \<open>
  CPython (3.11, default settings) refuses to write an integer of more than 4300
  decimal digits as text: \<^verbatim>\<open>str\<close>, \<^verbatim>\<open>repr\<close>, an f-string and \<^verbatim>\<open>json.dumps\<close> raise
  \<^verbatim>\<open>ValueError\<close> on it. The sign is not counted. A value can be written when every
  integer in it can.
\<close>

definition max_str_digits :: nat where
  "max_str_digits = 4300"

definition int_printable :: "int \<Rightarrow> bool" where
  "int_printable i = (\<bar>i\<bar> < 10 ^ max_str_digits)"

fun printable :: "pyval \<Rightarrow> bool" where
  "printable VNone = True"
| "printable (VBool b) = True"
| "printable (VInt i) = int_printable i"
| "printable (VStr s) = True"
| "printable (VList xs) = list_all printable xs"
| "printable (VDict d) = list_all (\<lambda>kv. printable (snd kv)) d"

subsection \<open>Ordering comparisons\<close>

datatype cmpop = Lt | Le | Gt | Ge

fun cmp_int :: "cmpop \<Rightarrow> int \<Rightarrow> int \<Rightarrow> bool" where
  "cmp_int Lt i j = (i < j)"
| "cmp_int Le i j = (i \<le> j)"
| "cmp_int Gt i j = (i > j)"
| "cmp_int Ge i j = (i \<ge> j)"

fun str_lt :: "string \<Rightarrow> string \<Rightarrow> bool" where
  "str_lt [] [] = False"
| "str_lt [] (y # ys) = True"
| "str_lt (x # xs) [] = False"
| "str_lt (x # xs) (y # ys) =
     ((of_char x :: nat) < of_char y \<or> (x = y \<and> str_lt xs ys))"

fun cmp_str :: "cmpop \<Rightarrow> string \<Rightarrow> string \<Rightarrow> bool" where
  "cmp_str Lt s t = str_lt s t"
| "cmp_str Le s t = (\<not> str_lt t s)"
| "cmp_str Gt s t = str_lt t s"
| "cmp_str Ge s t = (\<not> str_lt s t)"

text \<open>
  \<^verbatim>\<open><\<close>, \<^verbatim>\<open><=\<close>, \<^verbatim>\<open>>\<close>, \<^verbatim>\<open>>=\<close> of Python 3: numbers with numbers (a bool counts as
  0 or 1), strings with strings, lists with lists (the first pair of unequal
  elements decides, else the lengths); every other pair raises \<^verbatim>\<open>TypeError\<close>.
\<close>

fun py_cmp :: "cmpop \<Rightarrow> pyval \<Rightarrow> pyval \<Rightarrow> error + bool"
  and py_cmp_list :: "cmpop \<Rightarrow> pyval list \<Rightarrow> pyval list \<Rightarrow> error + bool"
where
  "py_cmp c VNone y = Inl TypeError"
| "py_cmp c (VBool a) y =
     (case y of VBool b \<Rightarrow> Inr (cmp_int c (of_bool a) (of_bool b))
      | VInt j \<Rightarrow> Inr (cmp_int c (of_bool a) j)
      | _ \<Rightarrow> Inl TypeError)"
| "py_cmp c (VInt i) y =
     (case y of VBool b \<Rightarrow> Inr (cmp_int c i (of_bool b))
      | VInt j \<Rightarrow> Inr (cmp_int c i j)
      | _ \<Rightarrow> Inl TypeError)"
| "py_cmp c (VStr s) y = (case y of VStr t \<Rightarrow> Inr (cmp_str c s t) | _ \<Rightarrow> Inl TypeError)"
| "py_cmp c (VList xs) y = (case y of VList ys \<Rightarrow> py_cmp_list c xs ys | _ \<Rightarrow> Inl TypeError)"
| "py_cmp c (VDict d) y = Inl TypeError"
| "py_cmp_list c [] ys = (case ys of [] \<Rightarrow> Inr (c = Le \<or> c = Ge) | _ # _ \<Rightarrow> Inr (c = Lt \<or> c = Le))"
| "py_cmp_list c (x # xs) ys =
     (case ys of [] \<Rightarrow> Inr (c = Gt \<or> c = Ge)
      | y # ys' \<Rightarrow> if py_eq x y then py_cmp_list c xs ys' else py_cmp c x y)"

subsection \<open>Text: \<^verbatim>\<open>str()\<close>, \<^verbatim>\<open>lower()\<close>, substring test\<close>

definition lower_char :: "char \<Rightarrow> char" where
  "lower_char c =
     (let n = (of_char c :: nat) in if 65 \<le> n \<and> n \<le> 90 then char_of (n + 32) else c)"

definition py_lower :: "string \<Rightarrow> string" where
  "py_lower s = map lower_char s"

fun starts_with :: "string \<Rightarrow> string \<Rightarrow> bool" where
  "starts_with hay [] = True"
| "starts_with [] (n # ns) = False"
| "starts_with (h # hs) (n # ns) = (h = n \<and> starts_with hs ns)"

text \<open>\<open>contains hay needle\<close> is Python's \<^verbatim>\<open>needle in hay\<close> on strings.\<close>

fun contains :: "string \<Rightarrow> string \<Rightarrow> bool" where
  "contains [] needle = (needle = [])"
| "contains (h # hs) needle = (starts_with (h # hs) needle \<or> contains hs needle)"

definition digit_char :: "nat \<Rightarrow> char" where
  "digit_char d = (if d < 10 then char_of (48 + d) else char_of (87 + d))"

function show_nat :: "nat \<Rightarrow> string" where
  "show_nat n = (if n < 10 then [digit_char n] else show_nat (n div 10) @ [digit_char (n mod 10)])"
  by pat_completeness auto
termination
  by (relation "measure (\<lambda>n. n)") auto

definition show_int :: "int \<Rightarrow> string" where
  "show_int i = (if i < 0 then CHR ''-'' # show_nat (nat (- i)) else show_nat (nat i))"

text \<open>
  \<^verbatim>\<open>repr\<close> of an ASCII string: double quotes when the text has a single quote and
  no double quote, single quotes otherwise; the quote and the backslash are
  escaped, tab, newline and carriage return are written \<^verbatim>\<open>\t\<close>, \<^verbatim>\<open>\n\<close>, \<^verbatim>\<open>\r\<close>,
  other control characters \<^verbatim>\<open>\xhh\<close>.
\<close>

definition repr_char :: "char \<Rightarrow> char \<Rightarrow> string" where
  "repr_char q c =
     (let n = (of_char c :: nat) in
      if c = q \<or> n = 92 then [char_of (92 :: nat), c]
      else if n = 9 then [char_of (92 :: nat), CHR ''t'']
      else if n = 10 then [char_of (92 :: nat), CHR ''n'']
      else if n = 13 then [char_of (92 :: nat), CHR ''r'']
      else if n < 32 \<or> n = 127 then
        [char_of (92 :: nat), CHR ''x'', digit_char (n div 16), digit_char (n mod 16)]
      else [c])"

definition repr_str :: "string \<Rightarrow> string" where
  "repr_str s =
     (let q = (if char_of (39 :: nat) \<in> set s \<and> char_of (34 :: nat) \<notin> set s
               then char_of (34 :: nat) else char_of (39 :: nat))
      in q # concat (map (repr_char q) s) @ [q])"

fun join_comma :: "string list \<Rightarrow> string" where
  "join_comma [] = []"
| "join_comma [x] = x"
| "join_comma (x # y # ys) = x @ '', '' @ join_comma (y # ys)"

fun py_repr :: "pyval \<Rightarrow> string" where
  "py_repr VNone = ''None''"
| "py_repr (VBool b) = (if b then ''True'' else ''False'')"
| "py_repr (VInt i) = show_int i"
| "py_repr (VStr s) = repr_str s"
| "py_repr (VList xs) = ''['' @ join_comma (map py_repr xs) @ '']''"
| "py_repr (VDict d) =
     ''{'' @ join_comma (map (\<lambda>kv. repr_str (fst kv) @ '': '' @ py_repr (snd kv)) d) @ ''}''"

text \<open>
  \<open>py_str v\<close> is the text of \<^verbatim>\<open>str(v)\<close> when \<open>v\<close> is \<open>printable\<close>; on another
  value \<^verbatim>\<open>str(v)\<close> raises \<^verbatim>\<open>ValueError\<close>, which is written out where \<^verbatim>\<open>str\<close> is
  called.
\<close>

definition py_str :: "pyval \<Rightarrow> string" where
  "py_str v = (case v of VStr s \<Rightarrow> s | _ \<Rightarrow> py_repr v)"

section \<open>Schema validation\<close>

text \<open>
  A schema maps a field name to its constraints \<^verbatim>\<open>{'type', 'required', 'max_length'}\<close>;
  \<open>c_type\<close> is the Python type object of the \<^verbatim>\<open>'type'\<close> entry, \<open>None\<close> when the entry
  is absent.
\<close>

datatype pytype = TStr | TInt | TBool | TList | TDict | TNoneType

text \<open>\<^verbatim>\<open>isinstance(value, t)\<close>; \<^verbatim>\<open>bool\<close> is a subclass of \<^verbatim>\<open>int\<close>.\<close>

fun isinstance :: "pyval \<Rightarrow> pytype \<Rightarrow> bool" where
  "isinstance VNone t = (t = TNoneType)"
| "isinstance (VBool b) t = (t = TBool \<or> t = TInt)"
| "isinstance (VInt i) t = (t = TInt)"
| "isinstance (VStr s) t = (t = TStr)"
| "isinstance (VList xs) t = (t = TList)"
| "isinstance (VDict d) t = (t = TDict)"

record constraints =
  c_type :: "pytype option"
  c_required :: bool
  c_max_length :: "int option"

type_synonym schema = "(string \<times> constraints) list"

text \<open>
  The loop of \<^verbatim>\<open>_validate_record\<close> over \<^verbatim>\<open>schema.items()\<close>. The length test is
  \<^verbatim>\<open>if max_length and isinstance(value, str) and len(value) > max_length\<close>: a limit
  of 0 is falsy and checks nothing, and only strings are measured. The message of
  the length error is an f-string with \<^verbatim>\<open>{max_length}\<close> in it, so a limit that
  cannot be written as text (a negative one, for a string to exceed it) raises
  \<^verbatim>\<open>ValueError\<close> instead.
\<close>

fun validate_fields :: "schema \<Rightarrow> pyrecord \<Rightarrow> error + bool" where
  "validate_fields [] r = Inr True"
| "validate_fields ((field, c) # rest) r =
     (if c_required c \<and> map_of r field = None then Inl ValidationError
      else case map_of r field of
        None \<Rightarrow> validate_fields rest r
      | Some v \<Rightarrow>
          if (case c_type c of None \<Rightarrow> False | Some ft \<Rightarrow> \<not> isinstance v ft)
          then Inl ValidationError
          else if (case c_max_length c of None \<Rightarrow> False
                   | Some ml \<Rightarrow> ml \<noteq> 0 \<and>
                       (case v of VStr s \<Rightarrow> int (length s) > ml | _ \<Rightarrow> False))
          then (if (case c_max_length c of None \<Rightarrow> True | Some ml \<Rightarrow> int_printable ml)
                then Inl ValidationError else Inl ValueError)
          else validate_fields rest r)"

definition validate_record :: "(string \<times> schema) list \<Rightarrow> string \<Rightarrow> pyrecord \<Rightarrow> error + bool" where
  "validate_record schs table_name r =
     (case map_of schs table_name of
        None \<Rightarrow> Inr True
      | Some sch \<Rightarrow> validate_fields sch r)"

section \<open>The database state\<close>

type_synonym table = "pyrecord list"

text \<open>
  An index of one column: value \<open>\<mapsto>\<close> list of 0-based positions, a Python dict
  keyed by the values (looked up with Python equality).
\<close>

type_synonym index = "(pyval \<times> nat list) list"

text \<open>
  What \<^verbatim>\<open>save_database\<close> writes: \<^verbatim>\<open>created_at\<close>, \<^verbatim>\<open>tables\<close>, \<^verbatim>\<open>schemas\<close>,
  \<^verbatim>\<open>indexes\<close> (the \<^verbatim>\<open>version\<close> is the constant \<^verbatim>\<open>'1.0'\<close>). The file is kept as the
  structures that were serialised, not as JSON text.
\<close>

record file_content =
  f_created_at :: string
  f_tables :: "(string \<times> table) list"
  f_schemas :: "(string \<times> schema) list"
  f_indexes :: "(string \<times> (string \<times> index) list) list"

text \<open>
  The attributes of an \<^verbatim>\<open>ADB\<close> instance, the content of the database file
  (\<open>None\<close>: no file) and \<open>writes\<close>, which counts the completed replacements of
  the database file.
\<close>

record db =
  data :: "(string \<times> table) list"
  indexes :: "(string \<times> (string \<times> index) list) list"
  schemas :: "(string \<times> schema) list"
  transaction_active :: bool
  transaction_backup :: "(string \<times> table) list option"
  last_save_time :: real
  max_records :: nat
  disk :: "file_content option"
  writes :: nat

text \<open>
  What one facade call reads from its environment: \<^verbatim>\<open>time.time()\<close>,
  \<^verbatim>\<open>datetime.now().isoformat()\<close> (one reading per call) and whether the file
  system lets \<^verbatim>\<open>save_database\<close> through: \<open>IoFailOpen\<close> when creating the directory
  or opening the temporary file raises \<^verbatim>\<open>IOError\<close>, \<open>IoFailReplace\<close> when the final
  rename does.
\<close>

datatype io_outcome = IoOk | IoFailOpen | IoFailReplace

record env =
  now :: real
  stamp :: string
  io :: io_outcome

text \<open>A call returns its value or raises, and leaves a state behind in both cases.\<close>

type_synonym 'a outcome = "(error + 'a) \<times> db"

section \<open>Persistence\<close>

definition save_interval :: real where
  "save_interval = 1"

text \<open>
  What \<^verbatim>\<open>json.dumps\<close> and \<^verbatim>\<open>json.dump\<close> raise. On the tables only an integer that
  cannot be written as text fails, with \<^verbatim>\<open>ValueError\<close>.
\<close>

definition record_dumpable :: "pyrecord \<Rightarrow> bool" where
  "record_dumpable r = list_all (\<lambda>kv. printable (snd kv)) r"

definition tables_dumpable :: "(string \<times> table) list \<Rightarrow> bool" where
  "tables_dumpable d = list_all (\<lambda>tr. list_all record_dumpable (snd tr)) d"

text \<open>
  A schema fails on a Python type object (\<^verbatim>\<open>TypeError\<close>) or on a \<^verbatim>\<open>max_length\<close> that
  cannot be written (\<^verbatim>\<open>ValueError\<close>); the first failure in the order of the dump
  decides. The constraints of a field are taken in the order \<^verbatim>\<open>type\<close>,
  \<^verbatim>\<open>required\<close>, \<^verbatim>\<open>max_length\<close>, the order in which the schemas of the repository
  write them.
\<close>

fun first_error :: "('a \<Rightarrow> error option) \<Rightarrow> 'a list \<Rightarrow> error option" where
  "first_error f [] = None"
| "first_error f (x # xs) = (case f x of Some err \<Rightarrow> Some err | None \<Rightarrow> first_error f xs)"

definition constraints_dump_error :: "constraints \<Rightarrow> error option" where
  "constraints_dump_error c =
     (if c_type c \<noteq> None then Some TypeError
      else case c_max_length c of
        None \<Rightarrow> None
      | Some ml \<Rightarrow> if int_printable ml then None else Some ValueError)"

definition schemas_dump_error :: "(string \<times> schema) list \<Rightarrow> error option" where
  "schemas_dump_error schs =
     first_error (\<lambda>ts. first_error (\<lambda>fc. constraints_dump_error (snd fc)) (snd ts)) schs"

text \<open>
  An index fails on a key or a position that cannot be written (its keys are
  hashable values, which \<^verbatim>\<open>json\<close> turns into strings).
\<close>

definition index_dumpable :: "index \<Rightarrow> bool" where
  "index_dumpable idx =
     list_all (\<lambda>kp. printable (fst kp) \<and> list_all (\<lambda>p. int_printable (int p)) (snd kp)) idx"

definition indexes_dumpable :: "(string \<times> (string \<times> index) list) list \<Rightarrow> bool" where
  "indexes_dumpable ix = list_all (\<lambda>tc. list_all (\<lambda>ci. index_dumpable (snd ci)) (snd tc)) ix"

text \<open>
  \<^verbatim>\<open>json.dump(content, f, ...)\<close> writes \<^verbatim>\<open>tables\<close>, then \<^verbatim>\<open>schemas\<close>, then
  \<^verbatim>\<open>indexes\<close>, and raises at the first value it cannot write.
\<close>

definition dump_error :: "db \<Rightarrow> error option" where
  "dump_error s =
     (if \<not> tables_dumpable (data s) then Some ValueError
      else case schemas_dump_error (schemas s) of
        Some err \<Rightarrow> Some err
      | None \<Rightarrow> if indexes_dumpable (indexes s) then None else Some ValueError)"

text \<open>The dict \<^verbatim>\<open>content\<close> that \<^verbatim>\<open>save_database\<close> serialises.\<close>

definition content :: "env \<Rightarrow> db \<Rightarrow> file_content" where
  "content e s = \<lparr>f_created_at = stamp e, f_tables = data s,
                   f_schemas = schemas s, f_indexes = indexes s\<rparr>"

definition save_database :: "env \<Rightarrow> db \<Rightarrow> bool outcome" where
  "save_database e s =
     (if now e - last_save_time s < save_interval \<and> \<not> transaction_active s
      then (Inr True, s)
      else case io e of
        IoFailOpen \<Rightarrow> (Inr False, s)
      | IoFailReplace \<Rightarrow>
          (case dump_error s of Some err \<Rightarrow> (Inl err, s) | None \<Rightarrow> (Inr False, s))
      | IoOk \<Rightarrow>
          (case dump_error s of
             Some err \<Rightarrow> (Inl err, s)
           | None \<Rightarrow>
               (Inr True,
                s\<lparr>disk := Some (content e s),
                  writes := writes s + 1,
                  last_save_time := now e\<rparr>)))"

section \<open>Indexes\<close>

fun idx_get :: "index \<Rightarrow> pyval \<Rightarrow> nat list option" where
  "idx_get [] v = None"
| "idx_get ((k, ps) # rest) v = (if py_eq k v then Some ps else idx_get rest v)"

fun idx_append :: "index \<Rightarrow> pyval \<Rightarrow> nat \<Rightarrow> index" where
  "idx_append [] v i = [(v, [i])]"
| "idx_append ((k, ps) # rest) v i =
     (if py_eq k v then (k, ps @ [i]) # rest else (k, ps) # idx_append rest v i)"

text \<open>
  \<^verbatim>\<open>if value not in index: index[value] = []\<close> followed by
  \<^verbatim>\<open>index[value].append(i)\<close>; the membership test hashes the value.
\<close>

definition index_add :: "index \<Rightarrow> pyval \<Rightarrow> nat \<Rightarrow> error + index" where
  "index_add idx v i = (if hashable v then Inr (idx_append idx v i) else Inl TypeError)"

text \<open>
  The loop of \<^verbatim>\<open>_update_indexes_for_insert\<close> over the table's indexes, which are
  mutated in place: when a column raises, the columns before it stay updated.
\<close>

fun update_index_cols :: "(string \<times> index) list \<Rightarrow> pyrecord \<Rightarrow> nat \<Rightarrow> error option \<times> (string \<times> index) list" where
  "update_index_cols [] r i = (None, [])"
| "update_index_cols ((column, idx) # rest) r i =
     (case map_of r column of
        None \<Rightarrow> (case update_index_cols rest r i of (e, rest') \<Rightarrow> (e, (column, idx) # rest'))
      | Some v \<Rightarrow>
          (case index_add idx v i of
             Inl err \<Rightarrow> (Some err, (column, idx) # rest)
           | Inr idx' \<Rightarrow>
               (case update_index_cols rest r i of (e, rest') \<Rightarrow> (e, (column, idx') # rest'))))"

definition update_indexes_for_insert :: "db \<Rightarrow> string \<Rightarrow> pyrecord \<Rightarrow> nat \<Rightarrow> unit outcome" where
  "update_indexes_for_insert s table_name r record_index =
     (case map_of (indexes s) table_name of
        None \<Rightarrow> (Inr (), s)
      | Some cols \<Rightarrow>
          (case update_index_cols cols r record_index of
             (e, cols') \<Rightarrow>
               ((case e of None \<Rightarrow> Inr () | Some err \<Rightarrow> Inl err),
                s\<lparr>indexes := AList.update table_name cols' (indexes s)\<rparr>)))"

text \<open>The loop of \<^verbatim>\<open>create_index\<close> over \<^verbatim>\<open>enumerate(self.data[table_name])\<close>.\<close>

fun build_index :: "string \<Rightarrow> table \<Rightarrow> nat \<Rightarrow> index \<Rightarrow> error + index" where
  "build_index column [] i idx = Inr idx"
| "build_index column (r # rs) i idx =
     (case map_of r column of
        None \<Rightarrow> build_index column rs (Suc i) idx
      | Some v \<Rightarrow>
          (case index_add idx v i of
             Inl err \<Rightarrow> Inl err
           | Inr idx' \<Rightarrow> build_index column rs (Suc i) idx'))"

definition create_index :: "db \<Rightarrow> string \<Rightarrow> string \<Rightarrow> bool outcome" where
  "create_index s table_name column =
     (case map_of (data s) table_name of
        None \<Rightarrow> (Inl TableNotFoundError, s)
      | Some recs \<Rightarrow>
          (let cols = (case map_of (indexes s) table_name of None \<Rightarrow> [] | Some cs \<Rightarrow> cs);
               s1 = (if map_of (indexes s) table_name = None
                     then s\<lparr>indexes := AList.update table_name [] (indexes s)\<rparr> else s)
           in if map_of cols column \<noteq> None then (Inr False, s1)
              else (case build_index column recs 0 [] of
                      Inl err \<Rightarrow> (Inl err, s1)
                    | Inr idx \<Rightarrow>
                        (Inr True,
                         s1\<lparr>indexes :=
                              AList.update table_name (AList.update column idx cols)
                                (indexes s1)\<rparr>))))"

text \<open>
  \<^verbatim>\<open>_rebuild_indexes\<close>: for every column that has an index, call
  \<^verbatim>\<open>create_index\<close>.
\<close>

fun rebuild_columns :: "db \<Rightarrow> string \<Rightarrow> string list \<Rightarrow> unit outcome" where
  "rebuild_columns s table_name [] = (Inr (), s)"
| "rebuild_columns s table_name (column # columns) =
     (case create_index s table_name column of
        (Inl err, s1) \<Rightarrow> (Inl err, s1)
      | (Inr b, s1) \<Rightarrow> rebuild_columns s1 table_name columns)"

definition rebuild_indexes :: "db \<Rightarrow> string \<Rightarrow> unit outcome" where
  "rebuild_indexes s table_name =
     (case map_of (indexes s) table_name of
        None \<Rightarrow> (Inr (), s)
      | Some cols \<Rightarrow> rebuild_columns s table_name (map fst cols))"

section \<open>Queries\<close>

text \<open>
  One operator mapping applied to the value \<open>rv\<close> of a field the record has.
  Each test of the source returns \<^verbatim>\<open>False\<close> when its comparison holds:
  \<open>reject_if c k\<close> raises what \<open>c\<close> raises, rejects when \<open>c\<close> is true and goes on
  with \<open>k\<close> otherwise.
\<close>

definition reject_if :: "error + bool \<Rightarrow> error + bool \<Rightarrow> error + bool" where
  "reject_if c k = (case c of Inl err \<Rightarrow> Inl err | Inr True \<Rightarrow> Inr False | Inr False \<Rightarrow> k)"

definition match_ops :: "pyval \<Rightarrow> (string \<times> pyval) list \<Rightarrow> error + bool" where
  "match_ops rv ops =
     reject_if (case map_of ops ''$gt'' of None \<Rightarrow> Inr False | Some b \<Rightarrow> py_cmp Le rv b)
    (reject_if (case map_of ops ''$lt'' of None \<Rightarrow> Inr False | Some b \<Rightarrow> py_cmp Ge rv b)
    (reject_if (case map_of ops ''$gte'' of None \<Rightarrow> Inr False | Some b \<Rightarrow> py_cmp Lt rv b)
    (reject_if (case map_of ops ''$lte'' of None \<Rightarrow> Inr False | Some b \<Rightarrow> py_cmp Gt rv b)
    (reject_if (case map_of ops ''$like'' of
                  None \<Rightarrow> Inr False
                | Some p \<Rightarrow>
                    (case p of
                       VStr ps \<Rightarrow>
                         if printable rv
                         then Inr (\<not> contains (py_lower (py_str rv)) (py_lower ps))
                         else Inl ValueError
                     | _ \<Rightarrow> Inl AttributeError))
       (Inr True)))))"

text \<open>
  The body of the loop of \<^verbatim>\<open>_match_condition\<close> for one item of the condition:
  \<open>Inr False\<close> is its \<^verbatim>\<open>return False\<close>, \<open>Inr True\<close> lets the loop go on. Every
  operator test is guarded by \<^verbatim>\<open>key in record\<close>, so an operator mapping on a field
  the record lacks tests nothing; a literal needs the field and Python equality.
\<close>

definition match_item :: "pyrecord \<Rightarrow> string \<Rightarrow> pyval \<Rightarrow> error + bool" where
  "match_item r key v =
     (case v of
        VDict ops \<Rightarrow>
          (case map_of r key of
             None \<Rightarrow> Inr True
           | Some rv \<Rightarrow> match_ops rv ops)
      | _ \<Rightarrow>
          (case map_of r key of
             None \<Rightarrow> Inr False
           | Some rv \<Rightarrow> Inr (py_eq rv v)))"

text \<open>\<^verbatim>\<open>_match_condition\<close>: the loop over \<^verbatim>\<open>condition.items()\<close>.\<close>

fun match_condition :: "pyrecord \<Rightarrow> cond \<Rightarrow> error + bool" where
  "match_condition r [] = Inr True"
| "match_condition r ((key, v) # rest) =
     (case match_item r key v of
        Inl err \<Rightarrow> Inl err
      | Inr b \<Rightarrow> if b then match_condition r rest else Inr False)"

text \<open>The records a condition matches, in table order; the first error aborts.\<close>

fun filter_match :: "table \<Rightarrow> cond \<Rightarrow> error + table" where
  "filter_match [] c = Inr []"
| "filter_match (r # rs) c =
     (case match_condition r c of
        Inl err \<Rightarrow> Inl err
      | Inr b \<Rightarrow>
          (case filter_match rs c of
             Inl err \<Rightarrow> Inl err
           | Inr out \<Rightarrow> Inr (if b then r # out else out)))"

text \<open>
  \<^verbatim>\<open>xs[offset:offset + limit if limit else None]\<close> with Python's slice rules: a
  negative bound counts from the end, both bounds are clipped to the list, and a
  limit of \<^verbatim>\<open>None\<close> or 0 means no upper bound.
\<close>

definition slice_bound :: "int \<Rightarrow> int \<Rightarrow> int" where
  "slice_bound i n = (if i < 0 then max 0 (i + n) else min i n)"

definition paginate :: "'a list \<Rightarrow> int option \<Rightarrow> int \<Rightarrow> 'a list" where
  "paginate xs limit offset =
     (let n = int (length xs);
          a = slice_bound offset n;
          b = (case limit of
                 None \<Rightarrow> n
               | Some l \<Rightarrow> if l = 0 then n else slice_bound (offset + l) n)
      in take (nat (b - a)) (drop (nat a) xs))"

text \<open>\<^verbatim>\<open>[records[i] for i in indexes if i < len(records)]\<close>\<close>

definition records_at :: "table \<Rightarrow> nat list \<Rightarrow> table" where
  "records_at records ps = map (\<lambda>i. records ! i) (filter (\<lambda>i. i < length records) ps)"

text \<open>The full scan of \<^verbatim>\<open>select\<close> (its last five lines).\<close>

definition full_scan :: "table \<Rightarrow> cond \<Rightarrow> int option \<Rightarrow> int \<Rightarrow> error + table" where
  "full_scan records c limit offset =
     (case filter_match records c of
        Inl err \<Rightarrow> Inl err
      | Inr res \<Rightarrow> Inr (paginate res limit offset))"

text \<open>
  The test that sends \<^verbatim>\<open>select\<close> to the index: the condition has one item, the
  table has an entry in \<^verbatim>\<open>self.indexes\<close>, the item's key has an index there and
  its value is not a dict. The result is that index and the literal.
\<close>

definition index_for :: "db \<Rightarrow> string \<Rightarrow> cond \<Rightarrow> (index \<times> pyval) option" where
  "index_for s table_name c =
     (case c of
        [(key, v)] \<Rightarrow>
          (case map_of (indexes s) table_name of
             None \<Rightarrow> None
           | Some cols \<Rightarrow>
               (case map_of cols key of
                  None \<Rightarrow> None
                | Some idx \<Rightarrow> (case v of VDict ops \<Rightarrow> None | _ \<Rightarrow> Some (idx, v))))
      | _ \<Rightarrow> None)"

text \<open>
  The index lookup of \<^verbatim>\<open>select\<close>: \<^verbatim>\<open>self.indexes[table_name][key].get(value, [])\<close>
  hashes the literal.
\<close>

definition index_scan :: "table \<Rightarrow> index \<Rightarrow> pyval \<Rightarrow> int option \<Rightarrow> int \<Rightarrow> error + table" where
  "index_scan records idx v limit offset =
     (if hashable v
      then Inr (paginate
             (records_at records (case idx_get idx v of None \<Rightarrow> [] | Some ps \<Rightarrow> ps))
             limit offset)
      else Inl TypeError)"

definition select :: "db \<Rightarrow> string \<Rightarrow> cond option \<Rightarrow> int option \<Rightarrow> int \<Rightarrow> error + table" where
  "select s table_name condition limit offset =
     (case map_of (data s) table_name of
        None \<Rightarrow> Inr []
      | Some records \<Rightarrow>
          (case condition of
             None \<Rightarrow> Inr (paginate records limit offset)
           | Some c \<Rightarrow>
               (case index_for s table_name c of
                  Some (idx, v) \<Rightarrow> index_scan records idx v limit offset
                | None \<Rightarrow> full_scan records c limit offset)))"

fun count_matches :: "table \<Rightarrow> cond \<Rightarrow> error + nat" where
  "count_matches [] c = Inr 0"
| "count_matches (r # rs) c =
     (case match_condition r c of
        Inl err \<Rightarrow> Inl err
      | Inr b \<Rightarrow> map_sum id (\<lambda>n. if b then Suc n else n) (count_matches rs c))"

definition count :: "db \<Rightarrow> string \<Rightarrow> cond option \<Rightarrow> error + nat" where
  "count s table_name condition =
     (case map_of (data s) table_name of
        None \<Rightarrow> Inr 0
      | Some records \<Rightarrow>
          (case condition of
             None \<Rightarrow> Inr (length records)
           | Some c \<Rightarrow> count_matches records c))"

section \<open>Mutating operations\<close>

definition insert_record :: "env \<Rightarrow> db \<Rightarrow> string \<Rightarrow> pyrecord \<Rightarrow> bool outcome" where
  "insert_record e s table_name r =
     (case map_of (data s) table_name of
        None \<Rightarrow> (Inl TableNotFoundError, s)
      | Some records \<Rightarrow>
          if length records \<ge> max_records s then (Inl ADBError, s)
          else (case validate_record (schemas s) table_name r of
                  Inl err \<Rightarrow> (Inl err, s)
                | Inr ok \<Rightarrow>
                    (let record_copy =
                           AList.update ''_id'' (VInt (int (length records) + 1))
                             (AList.update ''_created_at'' (VStr (stamp e)) r)
                     in case update_indexes_for_insert s table_name record_copy (length records) of
                          (Inl err, s1) \<Rightarrow> (Inl err, s1)
                        | (Inr u, s1) \<Rightarrow>
                            save_database e
                              (s1\<lparr>data := AList.update table_name (records @ [record_copy]) (data s1)\<rparr>))))"

text \<open>\<^verbatim>\<open>record.update(new_values)\<close>\<close>

definition dict_update :: "pyrecord \<Rightarrow> pyrecord \<Rightarrow> pyrecord" where
  "dict_update r new_values = fold (\<lambda>kv. AList.update (fst kv) (snd kv)) new_values r"

text \<open>
  The loop of \<^verbatim>\<open>update\<close>. Records are changed in place, so when a later record
  raises (in the match or in the validation) the earlier ones stay changed.
\<close>

fun update_loop :: "(string \<times> schema) list \<Rightarrow> string \<Rightarrow> cond \<Rightarrow> pyrecord \<Rightarrow> string \<Rightarrow> table \<Rightarrow> (error + nat) \<times> table" where
  "update_loop schs table_name c new_values ts [] = (Inr 0, [])"
| "update_loop schs table_name c new_values ts (r # rs) =
     (case match_condition r c of
        Inl err \<Rightarrow> (Inl err, r # rs)
      | Inr False \<Rightarrow>
          (case update_loop schs table_name c new_values ts rs of
             (res, rs') \<Rightarrow> (res, r # rs'))
      | Inr True \<Rightarrow>
          (case validate_record schs table_name (dict_update r new_values) of
             Inl err \<Rightarrow> (Inl err, r # rs)
           | Inr ok \<Rightarrow>
               (case update_loop schs table_name c new_values ts rs of
                  (res, rs') \<Rightarrow>
                    (map_sum id Suc res,
                     AList.update ''_updated_at'' (VStr ts) (dict_update r new_values) # rs'))))"

definition update :: "env \<Rightarrow> db \<Rightarrow> string \<Rightarrow> cond \<Rightarrow> pyrecord \<Rightarrow> nat outcome" where
  "update e s table_name c new_values =
     (case map_of (data s) table_name of
        None \<Rightarrow> (Inl TableNotFoundError, s)
      | Some records \<Rightarrow>
          if c = [] then (Inl ValidationError, s)
          else (case update_loop (schemas s) table_name c new_values (stamp e) records of
                  (res, records') \<Rightarrow>
                    (let s1 = s\<lparr>data := AList.update table_name records' (data s)\<rparr>
                     in case res of
                          Inl err \<Rightarrow> (Inl err, s1)
                        | Inr updated_count \<Rightarrow>
                            if updated_count > 0
                            then (case rebuild_indexes s1 table_name of
                                    (Inl err, s2) \<Rightarrow> (Inl err, s2)
                                  | (Inr u, s2) \<Rightarrow>
                                      (case save_database e s2 of
                                         (Inl err, s3) \<Rightarrow> (Inl err, s3)
                                       | (Inr b, s3) \<Rightarrow> (Inr updated_count, s3)))
                            else (Inr updated_count, s1))))"

text \<open>The records \<^verbatim>\<open>delete\<close> keeps: those the condition does not match.\<close>

fun filter_not_match :: "table \<Rightarrow> cond \<Rightarrow> error + table" where
  "filter_not_match [] c = Inr []"
| "filter_not_match (r # rs) c =
     (case match_condition r c of
        Inl err \<Rightarrow> Inl err
      | Inr b \<Rightarrow>
          (case filter_not_match rs c of
             Inl err \<Rightarrow> Inl err
           | Inr out \<Rightarrow> Inr (if b then out else r # out)))"

definition delete :: "env \<Rightarrow> db \<Rightarrow> string \<Rightarrow> cond \<Rightarrow> nat outcome" where
  "delete e s table_name c =
     (case map_of (data s) table_name of
        None \<Rightarrow> (Inl TableNotFoundError, s)
      | Some records \<Rightarrow>
          if c = [] then (Inl ValidationError, s)
          else (case filter_not_match records c of
                  Inl err \<Rightarrow> (Inl err, s)
                | Inr kept \<Rightarrow>
                    (let s1 = s\<lparr>data := AList.update table_name kept (data s)\<rparr>;
                         deleted_count = length records - length kept
                     in if deleted_count > 0
                        then (case rebuild_indexes s1 table_name of
                                (Inl err, s2) \<Rightarrow> (Inl err, s2)
                              | (Inr u, s2) \<Rightarrow>
                                  (case save_database e s2 of
                                     (Inl err, s3) \<Rightarrow> (Inl err, s3)
                                   | (Inr b, s3) \<Rightarrow> (Inr deleted_count, s3)))
                        else (Inr deleted_count, s1))))"

text \<open>
  \<^verbatim>\<open>_validate_table_name\<close>: a non-empty string of at most 64 characters that is
  alphanumeric once \<^verbatim>\<open>_\<close> and \<^verbatim>\<open>-\<close> are removed (\<^verbatim>\<open>''.isalnum()\<close> is false).
\<close>

definition is_alnum :: "char \<Rightarrow> bool" where
  "is_alnum c =
     (let n = (of_char c :: nat)
      in (48 \<le> n \<and> n \<le> 57) \<or> (65 \<le> n \<and> n \<le> 90) \<or> (97 \<le> n \<and> n \<le> 122))"

definition validate_table_name :: "string \<Rightarrow> error + unit" where
  "validate_table_name table_name =
     (if table_name = [] then Inl ValidationError
      else if length table_name > 64 then Inl ValidationError
      else (let stripped = filter (\<lambda>c. c \<noteq> CHR ''_'' \<and> c \<noteq> CHR ''-'') table_name
            in if stripped \<noteq> [] \<and> list_all is_alnum stripped then Inr ()
               else Inl ValidationError))"

text \<open>\<^verbatim>\<open>create_table\<close>; \<^verbatim>\<open>if schema:\<close> holds for a non-empty dict.\<close>

definition create_table :: "env \<Rightarrow> db \<Rightarrow> string \<Rightarrow> schema option \<Rightarrow> bool outcome" where
  "create_table e s table_name sch =
     (case validate_table_name table_name of
        Inl err \<Rightarrow> (Inl err, s)
      | Inr u \<Rightarrow>
          if map_of (data s) table_name \<noteq> None then (Inr False, s)
          else (let s1 = s\<lparr>data := AList.update table_name [] (data s),
                           indexes := AList.update table_name [] (indexes s)\<rparr>;
                    s2 = (case sch of
                            None \<Rightarrow> s1
                          | Some sc \<Rightarrow>
                              if sc \<noteq> [] then s1\<lparr>schemas := AList.update table_name sc (schemas s1)\<rparr>
                              else s1)
                in save_database e s2))"

section \<open>Transactions\<close>

text \<open>
  The \<^verbatim>\<open>finally\<close> clause and the \<^verbatim>\<open>except\<close> clause of \<^verbatim>\<open>transaction\<close>. The backup
  is \<^verbatim>\<open>json.dumps(self.data)\<close>; when the dump succeeds, \<^verbatim>\<open>json.loads\<close> gives the same
  tables back, so the backup is kept as the tables themselves.
  \<^verbatim>\<open>json.loads(None)\<close> raises \<^verbatim>\<open>TypeError\<close>.
\<close>

definition end_transaction :: "db \<Rightarrow> db" where
  "end_transaction s = s\<lparr>transaction_active := False, transaction_backup := None\<rparr>"

definition rollback :: "error \<Rightarrow> db \<Rightarrow> unit outcome" where
  "rollback err s =
     (case transaction_backup s of
        None \<Rightarrow> (Inl TypeError, end_transaction s)
      | Some backup \<Rightarrow> (Inl err, end_transaction (s\<lparr>data := backup\<rparr>)))"

text \<open>
  The context manager: \<open>body\<close> is the block under \<^verbatim>\<open>with db.transaction():\<close>,
  \<open>e\<close> the environment of the \<^verbatim>\<open>save_database\<close> call after \<^verbatim>\<open>yield\<close>. That call is
  inside the \<^verbatim>\<open>try\<close>, so an exception of it rolls back as well. The flag is set
  and the backup is taken before the \<^verbatim>\<open>try\<close>: when \<^verbatim>\<open>json.dumps(self.data)\<close> raises,
  the body does not run, the \<^verbatim>\<open>finally\<close> clause does not run, and the flag stays
  set.
\<close>

definition transaction :: "(db \<Rightarrow> unit outcome) \<Rightarrow> env \<Rightarrow> db \<Rightarrow> unit outcome" where
  "transaction body e s =
     (if transaction_active s then (Inl ADBError, s)
      else if \<not> tables_dumpable (data s)
      then (Inl ValueError, s\<lparr>transaction_active := True\<rparr>)
      else (case body (s\<lparr>transaction_active := True, transaction_backup := Some (data s)\<rparr>) of
              (Inl err, s2) \<Rightarrow> rollback err s2
            | (Inr u, s2) \<Rightarrow>
                (case save_database e s2 of
                   (Inl err, s3) \<Rightarrow> rollback err s3
                 | (Inr b, s3) \<Rightarrow> (Inr (), end_transaction s3))))"

lemma transaction_cong [fundef_cong]:
  "s = s' \<Longrightarrow> e = e' \<Longrightarrow> (\<And>s1. body s1 = body' s1) \<Longrightarrow>
   transaction body e s = transaction body' e' s'"
  by (simp add: transaction_def)

text \<open>
  A transaction body is a sequence of facade calls, each with the environment it
  runs in; return values are dropped. \<open>OpRaise\<close> is a \<^verbatim>\<open>raise\<close> of the caller,
  \<open>OpTransaction\<close> a nested \<^verbatim>\<open>with db.transaction():\<close> block.
\<close>

datatype op =
    OpInsert string pyrecord
  | OpUpdate string cond pyrecord
  | OpDelete string cond
  | OpCreateIndex string string
  | OpRaise error
  | OpTransaction "(env \<times> op) list" env

definition drop_value :: "'a outcome \<Rightarrow> unit outcome" where
  "drop_value x = (case x of (Inl err, s) \<Rightarrow> (Inl err, s) | (Inr v, s) \<Rightarrow> (Inr (), s))"

fun run_op :: "env \<Rightarrow> op \<Rightarrow> db \<Rightarrow> unit outcome"
  and run_body :: "(env \<times> op) list \<Rightarrow> db \<Rightarrow> unit outcome"
where
  "run_op e (OpInsert table_name r) s = drop_value (insert_record e s table_name r)"
| "run_op e (OpUpdate table_name c new_values) s = drop_value (update e s table_name c new_values)"
| "run_op e (OpDelete table_name c) s = drop_value (delete e s table_name c)"
| "run_op e (OpCreateIndex table_name column) s = drop_value (create_index s table_name column)"
| "run_op e (OpRaise err) s = (Inl err, s)"
| "run_op e (OpTransaction body ec) s = transaction (run_body body) ec s"
| "run_body [] s = (Inr (), s)"
| "run_body (eo # rest) s =
     (case run_op (fst eo) (snd eo) s of
        (Inl err, s1) \<Rightarrow> (Inl err, s1)
      | (Inr u, s1) \<Rightarrow> run_body rest s1)"

section \<open>Aggregation\<close>

text \<open>\<^verbatim>\<open>record.get(key, default)\<close>: the key is hashed; record keys are strings.\<close>

definition record_get :: "pyrecord \<Rightarrow> pyval \<Rightarrow> pyval \<Rightarrow> error + pyval" where
  "record_get r k dflt =
     (if \<not> hashable k then Inl TypeError
      else case k of
        VStr f \<Rightarrow> (case map_of r f of None \<Rightarrow> Inr dflt | Some v \<Rightarrow> Inr v)
      | _ \<Rightarrow> Inr dflt)"

text \<open>
  The dict \<^verbatim>\<open>result\<close> of the \<^verbatim>\<open>$group\<close> stage maps a key to
  \<^verbatim>\<open>{'_id': key, 'count': n}\<close>; it is kept as the list of the pairs (key, n) in
  insertion order, and \<open>group_record\<close> builds the dict of one pair.
  \<open>group_add\<close> is \<^verbatim>\<open>if key not in result: result[key] = {'_id': key, 'count': 0}\<close>
  followed by \<^verbatim>\<open>result[key]['count'] += 1\<close>.
\<close>

fun group_add :: "(pyval \<times> nat) list \<Rightarrow> pyval \<Rightarrow> (pyval \<times> nat) list" where
  "group_add [] key = [(key, 1)]"
| "group_add ((k, n) # rest) key =
     (if py_eq k key then (k, n + 1) # rest else (k, n) # group_add rest key)"

fun group_loop :: "pyval \<Rightarrow> table \<Rightarrow> (pyval \<times> nat) list \<Rightarrow> error + (pyval \<times> nat) list" where
  "group_loop group_key [] result = Inr result"
| "group_loop group_key (r # rs) result =
     (case record_get r group_key (VStr ''null'') of
        Inl err \<Rightarrow> Inl err
      | Inr key \<Rightarrow>
          if hashable key then group_loop group_key rs (group_add result key)
          else Inl TypeError)"

definition group_record :: "pyval \<times> nat \<Rightarrow> pyrecord" where
  "group_record kn = [(''_id'', fst kn), (''count'', VInt (int (snd kn)))]"

text \<open>
  One stage of the pipeline, a dict. \<^verbatim>\<open>stage['$group']['_id']\<close> raises
  \<^verbatim>\<open>TypeError\<close> when \<^verbatim>\<open>stage['$group']\<close> is not a dict and \<^verbatim>\<open>KeyError\<close> when it
  has no \<^verbatim>\<open>'_id'\<close>; a \<^verbatim>\<open>$match\<close> whose condition is not a dict raises
  \<^verbatim>\<open>AttributeError\<close> at the first record; a stage with neither key is skipped.
\<close>

definition run_stage :: "(string \<times> pyval) list \<Rightarrow> table \<Rightarrow> error + table" where
  "run_stage stage records =
     (case map_of stage ''$group'' of
        Some g \<Rightarrow>
          (case g of
             VDict gd \<Rightarrow>
               (case map_of gd ''_id'' of
                  None \<Rightarrow> Inl KeyError
                | Some group_key \<Rightarrow>
                    (case group_loop group_key records [] of
                       Inl err \<Rightarrow> Inl err
                     | Inr result \<Rightarrow> Inr (map group_record result)))
           | _ \<Rightarrow> Inl TypeError)
      | None \<Rightarrow>
          (case map_of stage ''$match'' of
             None \<Rightarrow> Inr records
           | Some cnd \<Rightarrow>
               (case cnd of
                  VDict c \<Rightarrow> filter_match records c
                | _ \<Rightarrow> if records = [] then Inr [] else Inl AttributeError)))"

fun run_pipeline :: "(string \<times> pyval) list list \<Rightarrow> table \<Rightarrow> error + table" where
  "run_pipeline [] records = Inr records"
| "run_pipeline (stage # pipeline) records =
     (case run_stage stage records of
        Inl err \<Rightarrow> Inl err
      | Inr records' \<Rightarrow> run_pipeline pipeline records')"

definition aggregate :: "db \<Rightarrow> string \<Rightarrow> (string \<times> pyval) list list \<Rightarrow> error + table" where
  "aggregate s table_name pipeline =
     (case map_of (data s) table_name of
        None \<Rightarrow> Inr []
      | Some records \<Rightarrow> run_pipeline pipeline records)"

section \<open>Insert with the caller's record as an object\<close>

text \<open>
  \<^verbatim>\<open>insert\<close> receives a reference to the caller's dict. To say what happens to that
  object, the dict objects live in a store, a list indexed by address, and the
  argument is an address \<open>a\<close> of the store. \<^verbatim>\<open>record.copy()\<close> allocates a new object
  at the end of the store; the two item assignments go to that object; the table
  receives it. The tables of the database keep the contents of their records, so
  the appended entry is the content of the copy. The copy is shallow, but values
  inside a record are never mutated by \<^verbatim>\<open>insert\<close>.
\<close>

type_synonym addr = nat

type_synonym store = "pyrecord list"

definition insert_by_ref :: "env \<Rightarrow> db \<Rightarrow> store \<Rightarrow> string \<Rightarrow> addr \<Rightarrow> bool outcome \<times> store" where
  "insert_by_ref e s h table_name a =
     (case map_of (data s) table_name of
        None \<Rightarrow> ((Inl TableNotFoundError, s), h)
      | Some records \<Rightarrow>
          if length records \<ge> max_records s then ((Inl ADBError, s), h)
          else (let record_copy = length h;
                    h1 = h @ [h ! a]
                in case validate_record (schemas s) table_name (h1 ! record_copy) of
                     Inl err \<Rightarrow> ((Inl err, s), h1)
                   | Inr ok \<Rightarrow>
                       (let h2 = h1[record_copy :=
                                   AList.update ''_created_at'' (VStr (stamp e)) (h1 ! record_copy)];
                            h3 = h2[record_copy :=
                                   AList.update ''_id'' (VInt (int (length records) + 1))
                                     (h2 ! record_copy)]
                        in case update_indexes_for_insert s table_name (h3 ! record_copy)
                                  (length records) of
                             (Inl err, s1) \<Rightarrow> ((Inl err, s1), h3)
                           | (Inr u, s1) \<Rightarrow>
                               (save_database e
                                  (s1\<lparr>data := AList.update table_name
                                                 (records @ [h3 ! record_copy]) (data s1)\<rparr>),
                                h3))))"

section \<open>Notions of the properties and example states\<close>

text \<open>\<^verbatim>\<open>isinstance(value, dict)\<close>\<close>

definition is_dict :: "pyval \<Rightarrow> bool" where
  "is_dict v = (case v of VDict d \<Rightarrow> True | _ \<Rightarrow> False)"

definition is_list :: "pyval \<Rightarrow> bool" where
  "is_list v = (case v of VList xs \<Rightarrow> True | _ \<Rightarrow> False)"

text \<open>
  The instance \<^verbatim>\<open>__init__\<close> leaves when there is no database file and no
  configuration module.
\<close>

definition init_db :: db where
  "init_db = \<lparr>data = [], indexes = [], schemas = [], transaction_active = False,
     transaction_backup = None, last_save_time = 0, max_records = 100000,
     disk = None, writes = 0\<rparr>"

text \<open>One environment for the example calls: they happen within the same second.\<close>

definition env0 :: env where
  "env0 = \<lparr>now = 1000, stamp = ''2024-01-01T00:00:00'', io = IoOk\<rparr>"

text \<open>
  The staff scenario: \<^verbatim>\<open>create_table('staff')\<close>, three inserts,
  \<^verbatim>\<open>create_index('staff', 'dept')\<close>, then \<^verbatim>\<open>delete('staff', {'age': 20})\<close>.
\<close>

definition staff_empty :: db where
  "staff_empty = snd (create_table env0 init_db ''staff'' None)"

definition staff_three :: db where
  "staff_three =
     snd (insert_record env0
       (snd (insert_record env0
         (snd (insert_record env0 staff_empty ''staff''
            [(''dept'', VStr ''eng''), (''age'', VInt 20)]))
          ''staff'' [(''dept'', VStr ''eng''), (''age'', VInt 40)]))
       ''staff'' [(''dept'', VStr ''hr''), (''age'', VInt 30)])"

definition staff_indexed :: db where
  "staff_indexed = snd (create_index staff_three ''staff'' ''dept'')"

definition staff_deleted :: db where
  "staff_deleted = snd (delete env0 staff_indexed ''staff'' [(''age'', VInt 20)])"

definition staff_rec :: "string \<Rightarrow> int \<Rightarrow> int \<Rightarrow> pyrecord" where
  "staff_rec dept age i =
     [(''dept'', VStr dept), (''age'', VInt age),
      (''_created_at'', VStr ''2024-01-01T00:00:00''), (''_id'', VInt i)]"

text \<open>The two attributes that only \<^verbatim>\<open>transaction\<close> assigns.\<close>

definition txn_fields :: "db \<Rightarrow> bool \<times> (string \<times> table) list option" where
  "txn_fields s = (transaction_active s, transaction_backup s)"

text \<open>The state right after \<^verbatim>\<open>transaction\<close> has taken its backup.\<close>

definition begin_transaction :: "db \<Rightarrow> db" where
  "begin_transaction s = s\<lparr>transaction_active := True, transaction_backup := Some (data s)\<rparr>"


text \<open>What a state says about persistence: the write count, the file, and the flag
  that switches the throttle of \<^verbatim>\<open>save_database\<close> off.\<close>

definition persisted :: "db \<Rightarrow> nat \<times> file_content option \<times> bool" where
  "persisted s = (writes s, disk s, transaction_active s)"

text \<open>
  The three ways a candidate record violates the constraints of one schema field,
  given the value the record has for the field (\<open>None\<close>: the field is absent):
  a required field is missing, the value is not an instance of the declared type,
  a string is longer than a non-zero \<^verbatim>\<open>max_length\<close>.
\<close>

definition missing_required :: "constraints \<Rightarrow> pyval option \<Rightarrow> bool" where
  "missing_required c vo = (c_required c \<and> vo = None)"

definition type_mismatch :: "constraints \<Rightarrow> pyval option \<Rightarrow> bool" where
  "type_mismatch c vo =
     (case (vo, c_type c) of (Some v, Some ft) \<Rightarrow> \<not> isinstance v ft | _ \<Rightarrow> False)"

definition length_overflow :: "constraints \<Rightarrow> pyval option \<Rightarrow> bool" where
  "length_overflow c vo =
     (case (vo, c_max_length c) of
        (Some (VStr s), Some ml) \<Rightarrow> ml \<noteq> 0 \<and> int (length s) > ml
      | _ \<Rightarrow> False)"

definition violates_schema :: "schema \<Rightarrow> pyrecord \<Rightarrow> bool" where
  "violates_schema sch r =
     list_ex (\<lambda>fc. missing_required (snd fc) (map_of r (fst fc)) \<or>
                   type_mismatch (snd fc) (map_of r (fst fc)) \<or>
                   length_overflow (snd fc) (map_of r (fst fc))) sch"

text \<open>Every \<^verbatim>\<open>max_length\<close> of the schema can be written as text.\<close>

definition limits_printable :: "schema \<Rightarrow> bool" where
  "limits_printable sch =
     list_all (\<lambda>fc. case c_max_length (snd fc) of None \<Rightarrow> True | Some ml \<Rightarrow> int_printable ml) sch"

text \<open>
  Scenario 1: the table \<^verbatim>\<open>users\<close> with the schema
  \<^verbatim>\<open>{'name': {'type': str, 'required': True, 'max_length': 5}}\<close>, created in the same
  second as the staff table (so that its save is throttled: the schema holds a
  type object, which \<^verbatim>\<open>json.dump\<close> refuses), then \<^verbatim>\<open>insert('users', {'name': 'ab'})\<close>.
\<close>

definition users_schema :: schema where
  "users_schema = [(''name'', \<lparr>c_type = Some TStr, c_required = True, c_max_length = Some 5\<rparr>)]"

definition users_empty :: db where
  "users_empty = snd (create_table env0 staff_empty ''users'' (Some users_schema))"

definition users_one :: db where
  "users_one = snd (insert_record env0 users_empty ''users'' [(''name'', VStr ''ab'')])"

text \<open>
  A database whose configuration allows one record per table
  (\<^verbatim>\<open>ADB_MAX_RECORDS_PER_TABLE=1\<close>): the same calls as scenario 1, which leave the
  \<^verbatim>\<open>users\<close> table with its schema and one record.
\<close>

definition users_full :: db where
  "users_full =
     snd (insert_record env0
       (snd (create_table env0
          (snd (create_table env0 (init_db\<lparr>max_records := 1\<rparr>) ''staff'' None))
          ''users'' (Some users_schema)))
       ''users'' [(''name'', VStr ''ab'')])"

text \<open>
  A table \<^verbatim>\<open>notes\<close> whose schema is \<^verbatim>\<open>{'name': {'max_length': -10**4300}}\<close>, created
  in the same second as the staff table (its save is throttled): every string is
  longer than the limit, and the limit has 4301 digits.
\<close>

definition limit_schema :: schema where
  "limit_schema = [(''name'', \<lparr>c_type = None, c_required = False,
                               c_max_length = Some (- (10 ^ max_str_digits))\<rparr>)]"

definition limit_db :: db where
  "limit_db = snd (create_table env0 staff_empty ''notes'' (Some limit_schema))"

text \<open>
  The dictionary key a hashable value stands for: \<^verbatim>\<open>True\<close> and \<^verbatim>\<open>1\<close> (and
  \<^verbatim>\<open>False\<close> and \<^verbatim>\<open>0\<close>) are equal and hash alike, so they are one key.
\<close>

definition norm_key :: "pyval \<Rightarrow> pyval" where
  "norm_key v = (case v of VBool b \<Rightarrow> VInt (of_bool b) | _ \<Rightarrow> v)"

text \<open>
  The stage \<^verbatim>\<open>{'$group': {'_id': byField}}\<close> and the key it files a record under:
  \<^verbatim>\<open>record.get(byField, 'null')\<close>.
\<close>

definition group_stage :: "string \<Rightarrow> (string \<times> pyval) list" where
  "group_stage by_field = [(''$group'', VDict [(''_id'', VStr by_field)])]"

definition group_key :: "string \<Rightarrow> pyrecord \<Rightarrow> pyval" where
  "group_key by_field r = (case map_of r by_field of None \<Rightarrow> VStr ''null'' | Some v \<Rightarrow> v)"

text \<open>The number of records filed under the dictionary key \<open>x\<close>.\<close>

definition key_count :: "string \<Rightarrow> pyval \<Rightarrow> table \<Rightarrow> nat" where
  "key_count by_field x records =
     length (filter (\<lambda>r. norm_key (group_key by_field r) = x) records)"

text \<open>The invariant of the \<^verbatim>\<open>$group\<close> loop once the records \<open>seen\<close> are filed in \<open>acc\<close>.\<close>

definition counts_ok :: "string \<Rightarrow> (pyval \<times> nat) list \<Rightarrow> table \<Rightarrow> bool" where
  "counts_ok f acc seen =
     (distinct (map (\<lambda>kn. norm_key (fst kn)) acc) \<and>
      list_all (\<lambda>kn. hashable (fst kn)) acc \<and>
      (\<forall>x. map_of (map (\<lambda>kn. (norm_key (fst kn), snd kn)) acc) x =
            (if key_count f x seen > 0 then Some (key_count f x seen) else None)))"

text \<open>The staff table with one record whose \<^verbatim>\<open>tags\<close> field is a list.\<close>

definition tagged_db :: db where
  "tagged_db = snd (insert_record env0 staff_empty ''staff'' [(''tags'', VList [VStr ''a''])])"

text \<open>
  A working set whose \<^verbatim>\<open>dept\<close> values are \<^verbatim>\<open>'eng'\<close>, absent, \<^verbatim>\<open>'null'\<close>, \<^verbatim>\<open>True\<close>
  and \<^verbatim>\<open>1\<close>.
\<close>

definition mixed_records :: table where
  "mixed_records =
     [[(''dept'', VStr ''eng'')], [(''age'', VInt 7)], [(''dept'', VStr ''null'')],
      [(''dept'', VBool True)], [(''dept'', VInt 1)]]"

section \<open>Values that can be written\<close>

lemma int_printable_small: "\<bar>i\<bar> \<le> 1000000 \<Longrightarrow> int_printable i"
proof -
  assume a: "\<bar>i\<bar> \<le> 1000000"
  have "(10 :: int) ^ 7 \<le> 10 ^ max_str_digits"
    by (rule power_increasing) (simp_all add: max_str_digits_def)
  with a show ?thesis by (simp add: int_printable_def)
qed

lemmas dump_simps =
  dump_error_def tables_dumpable_def record_dumpable_def schemas_dump_error_def
  constraints_dump_error_def indexes_dumpable_def index_dumpable_def int_printable_small




section \<open>Matching a record that lacks the field\<close>

lemma match_condition_append:
  "match_condition r (c1 @ c2) =
     (case match_condition r c1 of
        Inl err \<Rightarrow> Inl err
      | Inr b \<Rightarrow> if b then match_condition r c2 else Inr False)"
  by (induction c1) (auto split: sum.splits if_splits)

lemma match_item_ops_missing:
  "map_of r key = None \<Longrightarrow> match_item r key (VDict ops) = Inr True"
  by (simp add: match_item_def)

lemma match_item_literal_missing:
  "map_of r key = None \<Longrightarrow> \<not> is_dict v \<Longrightarrow> match_item r key v = Inr False"
  by (cases v) (simp_all add: match_item_def is_dict_def)

text \<open>
  C2, as the specification states it, fails: a record without the field
  \<^verbatim>\<open>age\<close> matches the condition \<^verbatim>\<open>{'age': {'$gt': 18}}\<close>.
\<close>

theorem missing_field_passes_range:
  "match_condition [(''name'', VStr ''ann'')] [(''age'', VDict [(''$gt'', VInt 18)])] = Inr True"
  by (simp add: match_item_def)

text \<open>
  C2, amended: when the record lacks the field, an operator mapping on that field
  (whatever its operators \<^verbatim>\<open>$gt\<close>, \<^verbatim>\<open>$gte\<close>, \<^verbatim>\<open>$lt\<close>, \<^verbatim>\<open>$lte\<close>, \<^verbatim>\<open>$like\<close>) tests
  nothing, so the record matches exactly when it matches the rest of the
  condition; a literal on that field is a mismatch: the match is \<^verbatim>\<open>False\<close> unless
  an item before it already raised.
\<close>

theorem match_condition_missing_field:
  "map_of r key = None \<Longrightarrow>
   match_condition r (c1 @ (key, VDict ops) # c2) = match_condition r (c1 @ c2) \<and>
   (\<not> is_dict v \<longrightarrow>
      match_condition r (c1 @ (key, v) # c2) =
        (case match_condition r c1 of Inl err \<Rightarrow> Inl err | Inr b \<Rightarrow> Inr False))"
  by (simp add: match_condition_append match_item_ops_missing match_item_literal_missing
        split: sum.splits)

theorem match_condition_missing_field_witness:
  "map_of [(''name'', VStr ''ann'')] ''age'' = None \<and>
   match_condition [(''name'', VStr ''ann'')]
     [(''name'', VStr ''ann''), (''age'', VDict [(''$like'', VStr ''4''), (''$lte'', VInt 3)])] = Inr True \<and>
   match_condition [(''name'', VStr ''ann'')]
     [(''name'', VStr ''ann''), (''age'', VInt 18)] = Inr False"
  using match_condition_missing_field
    [of "[(''name'', VStr ''ann'')]" "''age''" "[(''name'', VStr ''ann'')]"
        "[(''$like'', VStr ''4''), (''$lte'', VInt 3)]" "[]" "VInt 18"]
  by (simp add: match_item_def is_dict_def)

section \<open>Reading a table that does not exist\<close>

text \<open>
  C9: on a table name that is not in the database, \<^verbatim>\<open>select\<close> returns the empty
  list for every condition, limit and offset and \<^verbatim>\<open>count\<close> returns 0 for every
  condition, while \<^verbatim>\<open>insert\<close>, \<^verbatim>\<open>update\<close> and \<^verbatim>\<open>delete\<close> raise
  \<^verbatim>\<open>TableNotFoundError\<close>.
\<close>

theorem missing_table_reads_empty:
  "map_of (data s) table_name = None \<Longrightarrow>
     select s table_name condition limit offset = Inr [] \<and>
     count s table_name condition = Inr 0 \<and>
     fst (insert_record e s table_name r) = Inl TableNotFoundError \<and>
     fst (update e s table_name c new_values) = Inl TableNotFoundError \<and>
     fst (delete e s table_name c) = Inl TableNotFoundError"
  by (simp add: select_def count_def insert_record_def update_def delete_def)

theorem missing_table_reads_empty_witness:
  "map_of (data init_db) ''users'' = None \<and>
   select init_db ''users'' (Some [(''name'', VStr ''ann'')]) (Some 10) 2 = Inr [] \<and>
   count init_db ''users'' (Some [(''name'', VStr ''ann'')]) = Inr 0 \<and>
   fst (insert_record \<lparr>now = 5, stamp = ''t1'', io = IoOk\<rparr> init_db ''users'' [(''name'', VStr ''ann'')])
     = Inl TableNotFoundError \<and>
   fst (update \<lparr>now = 5, stamp = ''t1'', io = IoOk\<rparr> init_db ''users'' [(''name'', VStr ''ann'')] [])
     = Inl TableNotFoundError \<and>
   fst (delete \<lparr>now = 5, stamp = ''t1'', io = IoOk\<rparr> init_db ''users'' [(''name'', VStr ''ann'')])
     = Inl TableNotFoundError"
  using missing_table_reads_empty
    [of init_db "''users''" "Some [(''name'', VStr ''ann'')]" "Some 10" 2
        "\<lparr>now = 5, stamp = ''t1'', io = IoOk\<rparr>" "[(''name'', VStr ''ann'')]"
        "[(''name'', VStr ''ann'')]" "[]"]
  by (simp add: init_db_def)

section \<open>Indexes after a delete\<close>

lemma create_index_existing:
  "map_of (data s) t = Some recs \<Longrightarrow> map_of (indexes s) t = Some cols \<Longrightarrow>
   map_of cols c = Some idx \<Longrightarrow> create_index s t c = (Inr False, s)"
  by (simp add: create_index_def)

lemma rebuild_columns_noop:
  "map_of (data s) t = Some recs \<Longrightarrow> map_of (indexes s) t = Some cols \<Longrightarrow>
   set cs \<subseteq> fst ` set cols \<Longrightarrow> rebuild_columns s t cs = (Inr (), s)"
proof (induction cs)
  case Nil
  then show ?case by simp
next
  case (Cons c cs)
  from Cons.prems(3) have "c \<in> fst ` set cols" by simp
  then obtain idx where "map_of cols c = Some idx"
    by (metis domD dom_map_of_conv_image_fst)
  with Cons.prems have "create_index s t c = (Inr False, s)"
    by (simp add: create_index_existing)
  moreover from Cons have "rebuild_columns s t cs = (Inr (), s)" by simp
  ultimately show ?case by simp
qed

text \<open>
  \<^verbatim>\<open>_rebuild_indexes\<close> calls \<^verbatim>\<open>create_index\<close> for columns that have an index, and
  \<^verbatim>\<open>create_index\<close> returns \<^verbatim>\<open>False\<close> for such a column before it builds anything:
  on an existing table the rebuild changes nothing.
\<close>

lemma rebuild_indexes_noop:
  "map_of (data s) t = Some recs \<Longrightarrow> rebuild_indexes s t = (Inr (), s)"
  by (simp add: rebuild_indexes_def rebuild_columns_noop split: option.splits)

lemma save_database_indexes: "indexes (snd (save_database e s)) = indexes s"
  by (simp add: save_database_def split: io_outcome.splits option.splits)

lemma save_database_data: "data (snd (save_database e s)) = data s"
  by (simp add: save_database_def split: io_outcome.splits option.splits)

lemma delete_keeps_indexes: "indexes (snd (delete e s t c)) = indexes s"
proof (cases "map_of (data s) t")
  case None
  then show ?thesis by (simp add: delete_def)
next
  case (Some recs)
  show ?thesis
  proof (cases "filter_not_match recs c")
    case (Inl err)
    with Some show ?thesis by (simp add: delete_def)
  next
    case (Inr kept)
    let ?s1 = "s\<lparr>data := AList.update t kept (data s)\<rparr>"
    have "map_of (data ?s1) t = Some kept" by (simp add: update_conv')
    then have rb: "rebuild_indexes ?s1 t = (Inr (), ?s1)" by (rule rebuild_indexes_noop)
    have "indexes (snd (save_database e ?s1)) = indexes s"
      by (simp add: save_database_indexes)
    with Some Inr rb show ?thesis
      by (auto simp: delete_def Let_def split: prod.splits sum.splits)
  qed
qed

lemma staff_empty_eq:
  "staff_empty = init_db\<lparr>data := [(''staff'', [])], indexes := [(''staff'', [])],
      disk := Some \<lparr>f_created_at = ''2024-01-01T00:00:00'', f_tables = [(''staff'', [])],
                      f_schemas = [], f_indexes = [(''staff'', [])]\<rparr>,
      writes := 1, last_save_time := 1000\<rparr>"
  by (simp add: staff_empty_def create_table_def validate_table_name_def is_alnum_def
        init_db_def env0_def save_database_def save_interval_def dump_simps content_def)

lemma staff_three_eq:
  "staff_three = staff_empty\<lparr>data := [(''staff'',
      [staff_rec ''eng'' 20 1, staff_rec ''eng'' 40 2, staff_rec ''hr'' 30 3])]\<rparr>"
  by (simp add: staff_three_def staff_empty_eq insert_record_def validate_record_def
        update_indexes_for_insert_def init_db_def env0_def save_database_def
        save_interval_def staff_rec_def)

lemma staff_indexed_eq:
  "staff_indexed = staff_three\<lparr>indexes := [(''staff'',
      [(''dept'', [(VStr ''eng'', [0, 1]), (VStr ''hr'', [2])])])]\<rparr>"
  by (simp add: staff_indexed_def staff_three_eq staff_empty_eq create_index_def init_db_def
        staff_rec_def index_add_def)

lemma staff_deleted_eq:
  "staff_deleted = staff_indexed\<lparr>data := [(''staff'',
      [staff_rec ''eng'' 40 2, staff_rec ''hr'' 30 3])]\<rparr>"
  by (simp add: staff_deleted_def staff_indexed_eq staff_three_eq staff_empty_eq delete_def
        init_db_def staff_rec_def match_item_def rebuild_indexes_def create_index_def
        env0_def save_database_def save_interval_def)

text \<open>
  C1 fails on the code. In the staff scenario the query \<^verbatim>\<open>{'dept': 'eng'}\<close> returns
  the two \<^verbatim>\<open>eng\<close> records before the delete. After \<^verbatim>\<open>delete('staff', {'age': 20})\<close>
  the index on \<^verbatim>\<open>dept\<close> still holds the positions of the three-record table
  (\<^verbatim>\<open>eng\<close> at 0 and 1, \<^verbatim>\<open>hr\<close> at 2), where a recomputation would give \<^verbatim>\<open>eng\<close> at 0
  and \<^verbatim>\<open>hr\<close> at 1, and the same query returns the age-40 record and the \<^verbatim>\<open>hr\<close>
  record.
\<close>

theorem staff_index_stale_after_delete:
  "select staff_indexed ''staff'' (Some [(''dept'', VStr ''eng'')]) None 0
     = Inr [staff_rec ''eng'' 20 1, staff_rec ''eng'' 40 2] \<and>
   map_of (data staff_deleted) ''staff'' = Some [staff_rec ''eng'' 40 2, staff_rec ''hr'' 30 3] \<and>
   map_of (indexes staff_deleted) ''staff''
     = Some [(''dept'', [(VStr ''eng'', [0, 1]), (VStr ''hr'', [2])])] \<and>
   build_index ''dept'' [staff_rec ''eng'' 40 2, staff_rec ''hr'' 30 3] 0 []
     = Inr [(VStr ''eng'', [0]), (VStr ''hr'', [1])] \<and>
   select staff_deleted ''staff'' (Some [(''dept'', VStr ''eng'')]) None 0
     = Inr [staff_rec ''eng'' 40 2, staff_rec ''hr'' 30 3]"
  by (simp add: staff_deleted_eq staff_indexed_eq staff_three_eq staff_empty_eq init_db_def
        select_def index_for_def index_scan_def records_at_def paginate_def slice_bound_def
        staff_rec_def index_add_def)

text \<open>
  C6 fails on the code. After the inserts, the \<^verbatim>\<open>create_index\<close> and the delete of
  the staff scenario, \<^verbatim>\<open>select\<close> takes the index for \<^verbatim>\<open>{'dept': 'eng'}\<close> and returns
  two records, while the full scan of the same table with the same condition
  returns the age-40 record alone.
\<close>

theorem staff_index_lookup_differs_from_scan:
  "index_for staff_deleted ''staff'' [(''dept'', VStr ''eng'')]
     = Some ([(VStr ''eng'', [0, 1]), (VStr ''hr'', [2])], VStr ''eng'') \<and>
   select staff_deleted ''staff'' (Some [(''dept'', VStr ''eng'')]) None 0
     = Inr [staff_rec ''eng'' 40 2, staff_rec ''hr'' 30 3] \<and>
   full_scan [staff_rec ''eng'' 40 2, staff_rec ''hr'' 30 3] [(''dept'', VStr ''eng'')] None 0
     = Inr [staff_rec ''eng'' 40 2]"
  by (simp add: staff_deleted_eq staff_indexed_eq staff_three_eq staff_empty_eq init_db_def
        select_def index_for_def index_scan_def records_at_def paginate_def slice_bound_def
        staff_rec_def full_scan_def match_item_def)

section \<open>Transactions: what a failed body leaves\<close>

text \<open>
  No facade operation assigns \<^verbatim>\<open>_transaction_active\<close> or \<^verbatim>\<open>_transaction_backup\<close>,
  and a nested \<^verbatim>\<open>transaction\<close> raises before it touches them: while a transaction
  is active its body keeps both.
\<close>

lemma txn_save_database: "txn_fields (snd (save_database e s)) = txn_fields s"
  by (simp add: save_database_def txn_fields_def split: io_outcome.splits option.splits)

lemma txn_update_indexes_for_insert:
  "txn_fields (snd (update_indexes_for_insert s t r i)) = txn_fields s"
  by (simp add: update_indexes_for_insert_def txn_fields_def split: option.splits prod.splits)

lemma txn_data_update [simp]: "txn_fields (s\<lparr>data := d\<rparr>) = txn_fields s"
  by (simp add: txn_fields_def)

lemma txn_indexes_update [simp]: "txn_fields (s\<lparr>indexes := d\<rparr>) = txn_fields s"
  by (simp add: txn_fields_def)

lemma txn_insert_record: "txn_fields (snd (insert_record e s t r)) = txn_fields s"
proof -
  have "\<And>s1 x rc n. txn_fields (snd (case update_indexes_for_insert s t rc n of
            (Inl err, s1) \<Rightarrow> (Inl err, s1)
          | (Inr u, s1) \<Rightarrow> save_database e (s1\<lparr>data := x s1\<rparr>))) = txn_fields s"
  proof -
    fix x rc n
    obtain res s1 where u: "update_indexes_for_insert s t rc n = (res, s1)" by force
    then have "txn_fields s1 = txn_fields s"
      using txn_update_indexes_for_insert [of s t rc n] by simp
    with u show "txn_fields (snd (case update_indexes_for_insert s t rc n of
            (Inl err, s1) \<Rightarrow> (Inl err, s1)
          | (Inr u, s1) \<Rightarrow> save_database e (s1\<lparr>data := x s1\<rparr>))) = txn_fields s"
      by (cases res) (simp_all add: txn_save_database)
  qed
  then show ?thesis
    by (simp add: insert_record_def Let_def split: option.splits sum.splits)
qed

lemma txn_create_index: "txn_fields (snd (create_index s t c)) = txn_fields s"
  by (simp add: create_index_def Let_def split: option.splits sum.splits)

lemma txn_rebuild_columns: "txn_fields (snd (rebuild_columns s t cs)) = txn_fields s"
proof (induction cs arbitrary: s)
  case Nil
  then show ?case by simp
next
  case (Cons c cs)
  obtain res s1 where u: "create_index s t c = (res, s1)" by force
  then have "txn_fields s1 = txn_fields s" using txn_create_index [of s t c] by simp
  with u Cons show ?case by (cases res) simp_all
qed

lemma txn_rebuild_indexes: "txn_fields (snd (rebuild_indexes s t)) = txn_fields s"
  by (simp add: rebuild_indexes_def txn_rebuild_columns split: option.splits)

lemma txn_rebuild_then_save:
  "txn_fields (snd (case rebuild_indexes s1 t of
       (Inl err, s2) \<Rightarrow> (Inl err, s2)
     | (Inr u, s2) \<Rightarrow>
         (case save_database e s2 of
            (Inl err, s3) \<Rightarrow> (Inl err, s3)
          | (Inr b, s3) \<Rightarrow> (Inr (n :: nat), s3)))) = txn_fields s1"
proof -
  obtain res s2 where u: "rebuild_indexes s1 t = (res, s2)" by force
  then have a: "txn_fields s2 = txn_fields s1" using txn_rebuild_indexes [of s1 t] by simp
  obtain res' s3 where v: "save_database e s2 = (res', s3)" by force
  then have "txn_fields s3 = txn_fields s2" using txn_save_database [of e s2] by simp
  with a u v show ?thesis by (cases res; cases res') simp_all
qed

lemma txn_update: "txn_fields (snd (update e s t c nv)) = txn_fields s"
  by (simp add: update_def Let_def txn_rebuild_then_save split: option.splits sum.splits prod.splits)

lemma txn_delete: "txn_fields (snd (delete e s t c)) = txn_fields s"
  by (simp add: delete_def Let_def txn_rebuild_then_save split: option.splits sum.splits prod.splits)

lemma snd_drop_value [simp]: "snd (drop_value x) = snd x"
  by (simp add: drop_value_def split: prod.splits sum.splits)

lemma txn_run_op:
  "transaction_active s \<Longrightarrow> txn_fields (snd (run_op e x s)) = txn_fields s"
  by (cases x)
     (simp_all add: txn_insert_record txn_update txn_delete txn_create_index transaction_def)

lemma txn_run_body:
  "transaction_active s \<Longrightarrow> txn_fields (snd (run_body body s)) = txn_fields s"
proof (induction body arbitrary: s)
  case Nil
  then show ?case by simp
next
  case (Cons eo rest)
  obtain res s1 where u: "run_op (fst eo) (snd eo) s = (res, s1)" by force
  with Cons.prems have a: "txn_fields s1 = txn_fields s"
    using txn_run_op [of s "fst eo" "snd eo"] by simp
  with Cons.prems have "transaction_active s1" by (simp add: txn_fields_def)
  with Cons.IH a have "txn_fields (snd (run_body rest s1)) = txn_fields s" by simp
  with u a show ?case by (cases res) simp_all
qed


text \<open>
  The body runs only when the transaction starts: no transaction is active and
  \<^verbatim>\<open>json.dumps(self.data)\<close> returns. When the dump raises, the call raises
  \<^verbatim>\<open>ValueError\<close> and leaves the flag set.
\<close>

lemma transaction_dump_fails:
  "\<not> transaction_active s \<Longrightarrow> \<not> tables_dumpable (data s) \<Longrightarrow>
   transaction body e s = (Inl ValueError, s\<lparr>transaction_active := True\<rparr>)"
  by (simp add: transaction_def)

lemma transaction_unprintable_record:
  "transaction body e (init_db\<lparr>data := [(''staff'', [[(''n'', VInt (10 ^ max_str_digits))]])]\<rparr>)
     = (Inl ValueError,
        init_db\<lparr>data := [(''staff'', [[(''n'', VInt (10 ^ max_str_digits))]])],
                transaction_active := True\<rparr>)"
  by (simp add: transaction_def init_db_def tables_dumpable_def record_dumpable_def
        int_printable_def)



section \<open>Transactions: inserts that are rolled back\<close>









section \<open>Transactions: writes to the database file\<close>

text \<open>
  \<^verbatim>\<open>save_database\<close> skips the write only when the last save is less than a second
  old and no transaction is active. Inside a transaction it always goes on to
  write.
\<close>

lemma save_database_active:
  "transaction_active s \<Longrightarrow> io e = IoOk \<Longrightarrow> save_database e s = (Inr b, s') \<Longrightarrow>
   writes s' = writes s + 1 \<and> disk s' = Some (content e s')"
  by (auto simp: save_database_def content_def split: if_splits option.splits)

lemma persisted_data_update [simp]: "persisted (s\<lparr>data := d\<rparr>) = persisted s"
  by (simp add: persisted_def)

lemma persisted_indexes_update [simp]: "persisted (s\<lparr>indexes := d\<rparr>) = persisted s"
  by (simp add: persisted_def)

lemma persisted_update_indexes_for_insert:
  "persisted (snd (update_indexes_for_insert s t r i)) = persisted s"
  by (simp add: update_indexes_for_insert_def split: option.splits prod.splits)

lemma persisted_create_index: "persisted (snd (create_index s t c)) = persisted s"
  by (simp add: create_index_def Let_def split: option.splits sum.splits)

lemma persisted_rebuild_columns: "persisted (snd (rebuild_columns s t cs)) = persisted s"
proof (induction cs arbitrary: s)
  case Nil
  then show ?case by simp
next
  case (Cons c cs)
  obtain res s1 where u: "create_index s t c = (res, s1)" by force
  then have "persisted s1 = persisted s" using persisted_create_index [of s t c] by simp
  with u Cons show ?case by (cases res) simp_all
qed

lemma persisted_rebuild_indexes: "persisted (snd (rebuild_indexes s t)) = persisted s"
  by (simp add: rebuild_indexes_def persisted_rebuild_columns split: option.splits)

lemma save_after_persisted:
  assumes "persisted s1 = persisted s" "transaction_active s" "io e = IoOk"
    "save_database e s1 = (Inr b, s')"
  shows "writes s' = writes s + 1 \<and> disk s' = Some (content e s')"
proof -
  from assms(1,2) have "transaction_active s1" "writes s1 = writes s"
    by (simp_all add: persisted_def)
  with save_database_active [of s1 e b s'] assms(3,4) show ?thesis by simp
qed

lemma insert_in_transaction:
  assumes "transaction_active s" "io e = IoOk" "insert_record e s t r = (Inr b, s')"
  shows "writes s' = writes s + 1 \<and> disk s' = Some (content e s')"
proof -
  from assms(3) obtain records where t: "map_of (data s) t = Some records"
    by (auto simp: insert_record_def split: option.splits)
  let ?rc = "AList.update ''_id'' (VInt (int (length records) + 1))
               (AList.update ''_created_at'' (VStr (stamp e)) r)"
  obtain res s1 where u: "update_indexes_for_insert s t ?rc (length records) = (res, s1)" by force
  then have p: "persisted s1 = persisted s"
    using persisted_update_indexes_for_insert [of s t ?rc "length records"] by simp
  from assms(3) t u have "save_database e (s1\<lparr>data := AList.update t (records @ [?rc]) (data s1)\<rparr>) = (Inr b, s')"
    by (auto simp: insert_record_def Let_def split: if_splits sum.splits)
  moreover from p have "persisted (s1\<lparr>data := AList.update t (records @ [?rc]) (data s1)\<rparr>) = persisted s"
    by simp
  ultimately show ?thesis using assms(1,2) save_after_persisted by blast
qed

lemma rebuild_save_in_transaction:
  assumes "persisted s1 = persisted s" "transaction_active s" "io e = IoOk"
    "(case rebuild_indexes s1 t of
       (Inl err, s2) \<Rightarrow> (Inl err, s2)
     | (Inr u, s2) \<Rightarrow>
         (case save_database e s2 of
            (Inl err, s3) \<Rightarrow> (Inl err, s3)
          | (Inr b, s3) \<Rightarrow> (Inr (n :: nat), s3))) = (Inr m, s')"
  shows "writes s' = writes s + 1 \<and> disk s' = Some (content e s')"
proof -
  obtain res s2 where u: "rebuild_indexes s1 t = (res, s2)" by force
  then have p: "persisted s2 = persisted s"
    using persisted_rebuild_indexes [of s1 t] assms(1) by simp
  obtain res' s3 where v: "save_database e s2 = (res', s3)" by force
  from assms(4) u v obtain b where "res' = Inr b" "s3 = s'"
    by (cases res; cases res') auto
  with v p assms(2,3) save_after_persisted show ?thesis by blast
qed

lemma update_in_transaction:
  assumes "transaction_active s" "io e = IoOk" "update e s t c nv = (Inr n, s')" "n > 0"
  shows "writes s' = writes s + 1 \<and> disk s' = Some (content e s')"
proof -
  from assms(3) obtain records where t: "map_of (data s) t = Some records"
    by (auto simp: update_def split: option.splits)
  obtain res records' where l: "update_loop (schemas s) t c nv (stamp e) records = (res, records')"
    by force
  let ?s1 = "s\<lparr>data := AList.update t records' (data s)\<rparr>"
  from assms(3,4) t l obtain k where "(case rebuild_indexes ?s1 t of
       (Inl err, s2) \<Rightarrow> (Inl err, s2)
     | (Inr u, s2) \<Rightarrow>
         (case save_database e s2 of
            (Inl err, s3) \<Rightarrow> (Inl err, s3)
          | (Inr b, s3) \<Rightarrow> (Inr k, s3))) = (Inr n, s')"
    by (auto simp: update_def Let_def split: if_splits sum.splits)
  moreover have "persisted ?s1 = persisted s" by simp
  ultimately show ?thesis using assms(1,2) rebuild_save_in_transaction by blast
qed

lemma delete_in_transaction:
  assumes "transaction_active s" "io e = IoOk" "delete e s t c = (Inr n, s')" "n > 0"
  shows "writes s' = writes s + 1 \<and> disk s' = Some (content e s')"
proof -
  from assms(3) obtain records where t: "map_of (data s) t = Some records"
    by (auto simp: delete_def split: option.splits)
  from assms(3) t obtain kept where k: "filter_not_match records c = Inr kept"
    by (auto simp: delete_def split: if_splits sum.splits)
  let ?s1 = "s\<lparr>data := AList.update t kept (data s)\<rparr>"
  from assms(3,4) t k have "(case rebuild_indexes ?s1 t of
       (Inl err, s2) \<Rightarrow> (Inl err, s2)
     | (Inr u, s2) \<Rightarrow>
         (case save_database e s2 of
            (Inl err, s3) \<Rightarrow> (Inl err, s3)
          | (Inr b, s3) \<Rightarrow> (Inr (length records - length kept), s3))) = (Inr n, s')"
    by (auto simp: delete_def Let_def split: if_splits)
  moreover have "persisted ?s1 = persisted s" by simp
  ultimately show ?thesis using assms(1,2) rebuild_save_in_transaction by blast
qed

lemma commit_writes:
  assumes "\<not> transaction_active s" "io e = IoOk" "transaction (run_body body) e s = (Inr u, s')"
  shows "writes s' = writes (snd (run_body body (begin_transaction s))) + 1 \<and>
         disk s' = Some (content e s')"
proof -
  obtain res s2 where r: "run_body body (begin_transaction s) = (res, s2)" by force
  have "txn_fields s2 = txn_fields (begin_transaction s)"
    using txn_run_body [of "begin_transaction s" body] r by (simp add: begin_transaction_def)
  then have act: "transaction_active s2" by (simp add: txn_fields_def begin_transaction_def)
  obtain res' s3 where v: "save_database e s2 = (res', s3)" by force
  from assms(1,3) r v obtain b where "res' = Inr b" "s' = end_transaction s3"
    by (cases res; cases res')
       (auto simp: transaction_def begin_transaction_def rollback_def
          split: option.splits if_splits)
  with v act assms(2) save_database_active [of s2 e b s3] r show ?thesis
    by (simp add: end_transaction_def content_def)
qed

lemma staff_insert_in_transaction_eq:
  "run_body [(env0, OpInsert ''staff'' [(''dept'', VStr ''eng'')])] (begin_transaction staff_empty) =
   (Inr (),
    staff_empty\<lparr>data := [(''staff'',
         [[(''dept'', VStr ''eng''), (''_created_at'', VStr ''2024-01-01T00:00:00''), (''_id'', VInt 1)]])],
       transaction_active := True,
       transaction_backup := Some [(''staff'', [])],
       disk := Some \<lparr>f_created_at = ''2024-01-01T00:00:00'',
          f_tables = [(''staff'',
             [[(''dept'', VStr ''eng''), (''_created_at'', VStr ''2024-01-01T00:00:00''), (''_id'', VInt 1)]])],
          f_schemas = [], f_indexes = [(''staff'', [])]\<rparr>,
       writes := 2\<rparr>)"
  by (simp add: staff_empty_eq init_db_def begin_transaction_def drop_value_def insert_record_def
        validate_record_def update_indexes_for_insert_def env0_def save_database_def
        save_interval_def dump_simps content_def Let_def)

text \<open>
  C5, as the specification states it, fails. The staff table was created and
  saved at time 1000 (one write). A transaction at the same time with the single
  call \<^verbatim>\<open>insert('staff', {'dept': 'eng'})\<close> has written the file a second time
  when its body ends, and a third time after the commit; the same insert outside
  a transaction is throttled and writes nothing.
\<close>

theorem insert_in_transaction_writes_file:
  "writes staff_empty = 1 \<and>
   writes (snd (insert_record env0 staff_empty ''staff'' [(''dept'', VStr ''eng'')])) = 1 \<and>
   writes (snd (run_body [(env0, OpInsert ''staff'' [(''dept'', VStr ''eng'')])]
                  (begin_transaction staff_empty))) = 2 \<and>
   writes (snd (transaction (run_body [(env0, OpInsert ''staff'' [(''dept'', VStr ''eng'')])])
                  env0 staff_empty)) = 3"
proof -
  have "writes staff_empty = 1"
    by (simp add: staff_empty_eq)
  moreover have "writes (snd (insert_record env0 staff_empty ''staff'' [(''dept'', VStr ''eng'')])) = 1"
    by (simp add: staff_empty_eq init_db_def insert_record_def validate_record_def
          update_indexes_for_insert_def env0_def save_database_def save_interval_def Let_def)
  moreover have "writes (snd (run_body [(env0, OpInsert ''staff'' [(''dept'', VStr ''eng'')])]
                  (begin_transaction staff_empty))) = 2"
    unfolding staff_insert_in_transaction_eq by simp
  moreover have "writes (snd (transaction (run_body [(env0, OpInsert ''staff'' [(''dept'', VStr ''eng'')])])
                  env0 staff_empty)) = 3"
    unfolding transaction_def begin_transaction_def [symmetric] staff_insert_in_transaction_eq
    by (simp add: staff_empty_eq init_db_def env0_def save_database_def save_interval_def
          dump_simps content_def end_transaction_def)
  ultimately show ?thesis by simp
qed

text \<open>
  C5, amended: inside an active transaction the throttle of \<^verbatim>\<open>save_database\<close> is
  off, so with a working file system every \<^verbatim>\<open>insert\<close> that returns, and every
  \<^verbatim>\<open>update\<close> or \<^verbatim>\<open>delete\<close> that returns a positive count, has written the whole
  current state to the database file once; a transaction that commits writes the
  file once more after its body.
\<close>

theorem transaction_body_writes:
  assumes "io e = IoOk"
  shows "(transaction_active s \<and> insert_record e s t r = (Inr b, s') \<longrightarrow>
            writes s' = writes s + 1 \<and> disk s' = Some (content e s')) \<and>
         (transaction_active s \<and> update e s t c nv = (Inr n, s') \<and> n > 0 \<longrightarrow>
            writes s' = writes s + 1 \<and> disk s' = Some (content e s')) \<and>
         (transaction_active s \<and> delete e s t c = (Inr n, s') \<and> n > 0 \<longrightarrow>
            writes s' = writes s + 1 \<and> disk s' = Some (content e s')) \<and>
         (\<not> transaction_active s \<and> transaction (run_body body) e s = (Inr u, s') \<longrightarrow>
            writes s' = writes (snd (run_body body (begin_transaction s))) + 1 \<and>
            disk s' = Some (content e s'))"
proof (intro conjI impI)
  assume "transaction_active s \<and> insert_record e s t r = (Inr b, s')"
  with assms insert_in_transaction [of s e t r b s']
  show "writes s' = writes s + 1" and "disk s' = Some (content e s')" by simp_all
next
  assume "transaction_active s \<and> update e s t c nv = (Inr n, s') \<and> n > 0"
  with assms update_in_transaction [of s e t c nv n s']
  show "writes s' = writes s + 1" and "disk s' = Some (content e s')" by simp_all
next
  assume "transaction_active s \<and> delete e s t c = (Inr n, s') \<and> n > 0"
  with assms delete_in_transaction [of s e t c n s']
  show "writes s' = writes s + 1" and "disk s' = Some (content e s')" by simp_all
next
  assume "\<not> transaction_active s \<and> transaction (run_body body) e s = (Inr u, s')"
  with assms commit_writes [of s e body u s']
  show "writes s' = writes (snd (run_body body (begin_transaction s))) + 1"
    and "disk s' = Some (content e s')" by simp_all
qed

lemma staff_delete_in_transaction:
  "fst (delete env0 (begin_transaction staff_three) ''staff'' [(''age'', VInt 20)]) = Inr 1"
  by (simp add: staff_three_eq staff_empty_eq init_db_def begin_transaction_def delete_def
        staff_rec_def match_item_def rebuild_indexes_def env0_def save_database_def
        save_interval_def dump_simps content_def Let_def)

lemma staff_update_in_transaction:
  "fst (update env0 (begin_transaction staff_three) ''staff'' [(''dept'', VStr ''hr'')] [(''age'', VInt 31)]) = Inr 1"
  by (simp add: staff_three_eq staff_empty_eq init_db_def begin_transaction_def update_def
        staff_rec_def match_item_def rebuild_indexes_def env0_def save_database_def
        save_interval_def dump_simps content_def Let_def validate_record_def dict_update_def)

lemma staff_commit:
  "fst (transaction (run_body [(env0, OpInsert ''staff'' [(''dept'', VStr ''eng'')])]) env0 staff_empty) = Inr ()"
  unfolding transaction_def begin_transaction_def [symmetric] staff_insert_in_transaction_eq
  by (simp add: staff_empty_eq init_db_def env0_def save_database_def save_interval_def
          dump_simps content_def end_transaction_def)

theorem transaction_body_writes_witness:
  "io env0 = IoOk \<and> transaction_active (begin_transaction staff_empty) \<and>
   transaction_active (begin_transaction staff_three) \<and> \<not> transaction_active staff_empty \<and>
   fst (insert_record env0 (begin_transaction staff_empty) ''staff'' [(''dept'', VStr ''eng'')])
     = Inr True \<and>
   writes (snd (insert_record env0 (begin_transaction staff_empty) ''staff'' [(''dept'', VStr ''eng'')]))
     = writes (begin_transaction staff_empty) + 1 \<and>
   fst (update env0 (begin_transaction staff_three) ''staff'' [(''dept'', VStr ''hr'')] [(''age'', VInt 31)])
     = Inr 1 \<and>
   writes (snd (update env0 (begin_transaction staff_three) ''staff'' [(''dept'', VStr ''hr'')]
                  [(''age'', VInt 31)]))
     = writes (begin_transaction staff_three) + 1 \<and>
   fst (delete env0 (begin_transaction staff_three) ''staff'' [(''age'', VInt 20)]) = Inr 1 \<and>
   writes (snd (delete env0 (begin_transaction staff_three) ''staff'' [(''age'', VInt 20)]))
     = writes (begin_transaction staff_three) + 1 \<and>
   fst (transaction (run_body [(env0, OpInsert ''staff'' [(''dept'', VStr ''eng'')])]) env0 staff_empty)
     = Inr () \<and>
   writes (snd (transaction (run_body [(env0, OpInsert ''staff'' [(''dept'', VStr ''eng'')])]) env0
                  staff_empty))
     = writes (snd (run_body [(env0, OpInsert ''staff'' [(''dept'', VStr ''eng'')])]
                      (begin_transaction staff_empty))) + 1"
proof -
  have h1: "io env0 = IoOk" by (simp add: env0_def)
  have h2: "transaction_active (begin_transaction staff_empty)"
    and h2': "transaction_active (begin_transaction staff_three)"
    by (simp_all add: begin_transaction_def)
  have h2'': "\<not> transaction_active staff_empty"
    by (simp add: staff_empty_eq init_db_def)
  have h3: "fst (insert_record env0 (begin_transaction staff_empty) ''staff'' [(''dept'', VStr ''eng'')])
     = Inr True"
    by (simp add: staff_empty_eq init_db_def begin_transaction_def insert_record_def
          validate_record_def update_indexes_for_insert_def env0_def save_database_def
          save_interval_def dump_simps content_def Let_def)
  note t = transaction_body_writes [OF h1]
  obtain s1 where i: "insert_record env0 (begin_transaction staff_empty) ''staff''
      [(''dept'', VStr ''eng'')] = (Inr True, s1)"
    using h3 by (metis prod.collapse)
  from t [THEN conjunct1, THEN mp, OF conjI [OF h2 i]] i
  have a: "writes (snd (insert_record env0 (begin_transaction staff_empty) ''staff'' [(''dept'', VStr ''eng'')]))
     = writes (begin_transaction staff_empty) + 1" by simp
  obtain s2 where u: "update env0 (begin_transaction staff_three) ''staff'' [(''dept'', VStr ''hr'')]
      [(''age'', VInt 31)] = (Inr 1, s2)"
    using staff_update_in_transaction by (metis prod.collapse)
  have "transaction_active (begin_transaction staff_three) \<and>
      update env0 (begin_transaction staff_three) ''staff'' [(''dept'', VStr ''hr'')]
        [(''age'', VInt 31)] = (Inr 1, s2) \<and> (0 :: nat) < 1"
    using h2' u by simp
  from t [THEN conjunct2, THEN conjunct1, THEN mp, OF this] u
  have b: "writes (snd (update env0 (begin_transaction staff_three) ''staff'' [(''dept'', VStr ''hr'')]
                  [(''age'', VInt 31)]))
     = writes (begin_transaction staff_three) + 1" by simp
  obtain s3 where d: "delete env0 (begin_transaction staff_three) ''staff'' [(''age'', VInt 20)]
      = (Inr 1, s3)"
    using staff_delete_in_transaction by (metis prod.collapse)
  have "transaction_active (begin_transaction staff_three) \<and>
      delete env0 (begin_transaction staff_three) ''staff'' [(''age'', VInt 20)] = (Inr 1, s3) \<and>
      (0 :: nat) < 1"
    using h2' d by simp
  from t [THEN conjunct2, THEN conjunct2, THEN conjunct1, THEN mp, OF this] d
  have c: "writes (snd (delete env0 (begin_transaction staff_three) ''staff'' [(''age'', VInt 20)]))
     = writes (begin_transaction staff_three) + 1" by simp
  obtain s4 where m: "transaction (run_body [(env0, OpInsert ''staff'' [(''dept'', VStr ''eng'')])])
      env0 staff_empty = (Inr (), s4)"
    using staff_commit by (metis prod.collapse)
  from t [THEN conjunct2, THEN conjunct2, THEN conjunct2, THEN mp, OF conjI [OF h2'' m]] m
  have e: "writes (snd (transaction (run_body [(env0, OpInsert ''staff'' [(''dept'', VStr ''eng'')])]) env0
                  staff_empty))
     = writes (snd (run_body [(env0, OpInsert ''staff'' [(''dept'', VStr ''eng'')])]
                      (begin_transaction staff_empty))) + 1" by simp
  from h1 h2 h2' h2'' h3 a staff_update_in_transaction b staff_delete_in_transaction c staff_commit e
  show ?thesis by (intro conjI)
qed

section \<open>Inserts and the schema\<close>

text \<open>
  When every \<^verbatim>\<open>max_length\<close> of the schema can be written as text,
  \<^verbatim>\<open>_validate_record\<close> raises \<^verbatim>\<open>ValidationError\<close> exactly when some field of the
  schema is violated in one of the three ways, and returns \<^verbatim>\<open>True\<close> otherwise.
\<close>

lemma validate_fields_violates:
  "limits_printable sch \<Longrightarrow>
   validate_fields sch r = (if violates_schema sch r then Inl ValidationError else Inr True)"
proof (induction sch)
  case Nil
  then show ?case by (simp add: violates_schema_def)
next
  case (Cons fc sch)
  obtain field c where fc: "fc = (field, c)" by force
  from Cons.prems fc have lp: "limits_printable sch"
    and lc: "case c_max_length c of None \<Rightarrow> True | Some ml \<Rightarrow> int_printable ml"
    by (simp_all add: limits_printable_def)
  have ih: "validate_fields sch r = (if violates_schema sch r then Inl ValidationError else Inr True)"
    using lp by (rule Cons.IH)
  show ?case
  proof (cases "map_of r field")
    case None
    with fc ih show ?thesis
      by (simp add: violates_schema_def missing_required_def type_mismatch_def length_overflow_def)
  next
    case (Some v)
    with fc ih lc show ?thesis
      by (cases v)
         (auto simp: violates_schema_def missing_required_def type_mismatch_def
            length_overflow_def split: option.splits)
  qed
qed

text \<open>
  A \<^verbatim>\<open>max_length\<close> of minus \<open>10 ^ 4300\<close>: every string exceeds it, and the error
  message cannot be built.
\<close>

lemma limit_negative:
  "(- (10 ^ max_str_digits) :: int) \<noteq> 0" "(2 :: int) > - (10 ^ max_str_digits)"
proof -
  have "(0 :: int) < 10 ^ max_str_digits" by simp
  then show "(- (10 ^ max_str_digits) :: int) \<noteq> 0" and "(2 :: int) > - (10 ^ max_str_digits)"
    by linarith+
qed

lemma unprintable_limit_raises_value_error:
  "validate_fields limit_schema [(''name'', VStr ''ab'')] = Inl ValueError"
  using limit_negative by (simp add: limit_schema_def int_printable_def)

lemma limit_schema_violated:
  "violates_schema limit_schema [(''name'', VStr ''ab'')] \<and> \<not> limits_printable limit_schema"
  using limit_negative
  by (simp add: limit_schema_def violates_schema_def missing_required_def type_mismatch_def
        length_overflow_def limits_printable_def int_printable_def)

text \<open>
  Whatever the limits are, \<^verbatim>\<open>_validate_record\<close> raises on a record that violates the
  schema.
\<close>

lemma validate_fields_violates_raises:
  "violates_schema sch r \<Longrightarrow>
   validate_fields sch r = Inl ValidationError \<or> validate_fields sch r = Inl ValueError"
proof (induction sch)
  case Nil
  then show ?case by (simp add: violates_schema_def)
next
  case (Cons fc sch)
  obtain field c where fc: "fc = (field, c)" by force
  show ?case
  proof (cases "violates_schema sch r")
    case True
    then have "validate_fields sch r = Inl ValidationError \<or> validate_fields sch r = Inl ValueError"
      by (rule Cons.IH)
    with fc show ?thesis by (auto split: option.splits)
  next
    case False
    with Cons.prems fc
    have v: "missing_required c (map_of r field) \<or> type_mismatch c (map_of r field) \<or>
        length_overflow c (map_of r field)"
      by (simp add: violates_schema_def)
    show ?thesis
    proof (cases "map_of r field")
      case None
      with v fc show ?thesis
        by (simp add: missing_required_def type_mismatch_def length_overflow_def)
    next
      case (Some x)
      with v fc show ?thesis
        by (cases x)
           (auto simp: missing_required_def type_mismatch_def length_overflow_def
              split: option.splits)
    qed
  qed
qed

lemma update_indexes_for_insert_data:
  "data (snd (update_indexes_for_insert s t r i)) = data s"
  by (simp add: update_indexes_for_insert_def split: option.splits prod.splits)

lemma insert_violation:
  assumes "map_of (data s) t = Some records" "map_of (schemas s) t = Some sch"
    "violates_schema sch r" "limits_printable sch" "length records < max_records s"
  shows "insert_record e s t r = (Inl ValidationError, s)"
  using assms by (simp add: insert_record_def validate_record_def validate_fields_violates)

lemma insert_unprintable_limit:
  assumes "map_of (data s) t = Some records" "length records < max_records s"
    "map_of (schemas s) t = Some limit_schema"
  shows "insert_record e s t [(''name'', VStr ''ab'')] = (Inl ValueError, s)"
  using assms unprintable_limit_raises_value_error
  by (simp add: insert_record_def validate_record_def)

lemma insert_violation_raises:
  assumes "map_of (data s) t = Some records" "map_of (schemas s) t = Some sch"
    "violates_schema sch r"
  shows "snd (insert_record e s t r) = s \<and>
         (fst (insert_record e s t r) = Inl ValidationError \<or>
          fst (insert_record e s t r) = Inl ADBError \<or>
          fst (insert_record e s t r) = Inl ValueError)"
proof (cases "length records < max_records s")
  case True
  from assms(3)
  have "validate_fields sch r = Inl ValidationError \<or> validate_fields sch r = Inl ValueError"
    by (rule validate_fields_violates_raises)
  with assms(1,2) True show ?thesis
    by (auto simp: insert_record_def validate_record_def)
next
  case False
  with assms(1) show ?thesis by (simp add: insert_record_def)
qed

lemma insert_at_limit:
  assumes "map_of (data s) t = Some records" "length records \<ge> max_records s"
  shows "insert_record e s t r = (Inl ADBError, s)"
  using assms by (simp add: insert_record_def)

lemma insert_success:
  assumes "insert_record e s t r = (Inr b, s')"
  shows "\<exists>records. map_of (data s) t = Some records \<and>
           map_of (data s') t =
             Some (records @ [AList.update ''_id'' (VInt (int (length records) + 1))
                                (AList.update ''_created_at'' (VStr (stamp e)) r)])"
proof -
  from assms obtain records where t: "map_of (data s) t = Some records"
    by (auto simp: insert_record_def split: option.splits)
  let ?rc = "AList.update ''_id'' (VInt (int (length records) + 1))
               (AList.update ''_created_at'' (VStr (stamp e)) r)"
  obtain res s1 where u: "update_indexes_for_insert s t ?rc (length records) = (res, s1)" by force
  from assms t u have sv: "save_database e (s1\<lparr>data := AList.update t (records @ [?rc]) (data s1)\<rparr>) = (Inr b, s')"
    by (auto simp: insert_record_def Let_def split: if_splits sum.splits)
  have "data s' = AList.update t (records @ [?rc]) (data s1)"
    using save_database_data [of e "s1\<lparr>data := AList.update t (records @ [?rc]) (data s1)\<rparr>"] sv
    by simp
  then have "map_of (data s') t = Some (records @ [?rc])" by (simp add: update_conv')
  with t show ?thesis by blast
qed

lemma id_of_inserted:
  "map_of (AList.update ''_id'' v r) ''_id'' = Some v"
  by (simp add: update_conv')

lemma users_empty_eq:
  "users_empty = staff_empty\<lparr>data := [(''staff'', []), (''users'', [])],
      indexes := [(''staff'', []), (''users'', [])], schemas := [(''users'', users_schema)]\<rparr>"
  by (simp add: users_empty_def staff_empty_eq create_table_def validate_table_name_def is_alnum_def
        init_db_def env0_def save_database_def save_interval_def users_schema_def)

lemma users_one_eq:
  "users_one = users_empty\<lparr>data := [(''staff'', []), (''users'',
      [[(''name'', VStr ''ab''), (''_created_at'', VStr ''2024-01-01T00:00:00''), (''_id'', VInt 1)]])]\<rparr>"
  by (simp add: users_one_def users_empty_eq staff_empty_eq insert_record_def validate_record_def
        update_indexes_for_insert_def init_db_def env0_def save_database_def
        save_interval_def users_schema_def Let_def)

lemma users_full_eq:
  "users_full = users_one\<lparr>max_records := 1\<rparr>"
  by (simp add: users_full_def users_one_eq users_empty_eq staff_empty_eq insert_record_def validate_record_def
        update_indexes_for_insert_def init_db_def env0_def save_database_def create_table_def
        validate_table_name_def is_alnum_def dump_simps content_def
        save_interval_def users_schema_def Let_def)

lemma limit_db_eq:
  "limit_db = staff_empty\<lparr>data := [(''staff'', []), (''notes'', [])],
      indexes := [(''staff'', []), (''notes'', [])], schemas := [(''notes'', limit_schema)]\<rparr>"
  by (simp add: limit_db_def staff_empty_eq create_table_def validate_table_name_def is_alnum_def
        init_db_def env0_def save_database_def save_interval_def limit_schema_def)

lemma users_full_limit:
  "map_of (data users_full) ''users''
      = Some [[(''name'', VStr ''ab''), (''_created_at'', VStr ''2024-01-01T00:00:00''), (''_id'', VInt 1)]] \<and>
   max_records users_full = 1"
  by (simp add: users_full_eq users_one_eq)

text \<open>
  C7, as the specification states it, fails: with one record allowed per table the
  \<^verbatim>\<open>users\<close> table of scenario 1 is full after its first insert, and the insert of
  \<^verbatim>\<open>{'name': 'toolong'}\<close>, which violates \<^verbatim>\<open>max_length\<close>, raises \<^verbatim>\<open>ADBError\<close> from the
  record limit check, which comes before the validation.
\<close>

theorem full_table_insert_raises_adb_error:
  "map_of (schemas users_full) ''users'' = Some users_schema \<and>
   violates_schema users_schema [(''name'', VStr ''toolong'')] \<and>
   fst (insert_record env0 users_full ''users'' [(''name'', VStr ''toolong'')]) = Inl ADBError"
  by (simp add: users_full_eq users_one_eq users_empty_eq staff_empty_eq init_db_def
        insert_record_def violates_schema_def users_schema_def missing_required_def
        type_mismatch_def length_overflow_def)

text \<open>
  C7, amended: on a table with a schema that has not reached its record limit, an
  insert whose candidate record violates a schema constraint (a required field is
  missing, a value is not of the declared type, a string is longer than a
  non-zero \<^verbatim>\<open>max_length\<close>) raises \<^verbatim>\<open>ValidationError\<close> and leaves the whole state
  unchanged, so the record count and the indexes of the table in particular,
  provided every \<^verbatim>\<open>max_length\<close> of the schema can be written as text (at most 4300
  digits: the error message prints it); on a
  table at its record limit the insert raises \<^verbatim>\<open>ADBError\<close> instead and leaves the
  state unchanged as well. Whatever the limits and the record count are, an insert
  of a record that violates the schema raises (\<^verbatim>\<open>ValidationError\<close>, \<^verbatim>\<open>ADBError\<close> or
  \<^verbatim>\<open>ValueError\<close>) and leaves the whole state unchanged. An insert that returns has
  appended one record whose \<^verbatim>\<open>_id\<close> is the record count before the insert plus 1.
\<close>

theorem insert_validation:
  "(map_of (data s) t = Some records \<and> map_of (schemas s) t = Some sch \<and>
      violates_schema sch r \<and> limits_printable sch \<and> length records < max_records s \<longrightarrow>
        insert_record e s t r = (Inl ValidationError, s)) \<and>
   (map_of (data s) t = Some records \<and> map_of (schemas s) t = Some sch \<and>
      violates_schema sch r \<and> length records \<ge> max_records s \<longrightarrow>
        insert_record e s t r = (Inl ADBError, s)) \<and>
   (map_of (data s) t = Some records \<and> map_of (schemas s) t = Some sch \<and>
      violates_schema sch r \<longrightarrow>
        snd (insert_record e s t r) = s \<and>
        (fst (insert_record e s t r) = Inl ValidationError \<or>
         fst (insert_record e s t r) = Inl ADBError \<or>
         fst (insert_record e s t r) = Inl ValueError)) \<and>
   (insert_record e s t r = (Inr b, s') \<longrightarrow>
      (\<exists>recs rc. map_of (data s) t = Some recs \<and>
         map_of (data s') t = Some (recs @ [rc]) \<and>
         map_of rc ''_id'' = Some (VInt (int (length recs) + 1))))"
proof (intro conjI impI)
  assume "map_of (data s) t = Some records \<and> map_of (schemas s) t = Some sch \<and>
      violates_schema sch r \<and> limits_printable sch \<and> length records < max_records s"
  then show "insert_record e s t r = (Inl ValidationError, s)"
    using insert_violation [of s t records sch r e] by simp
next
  assume "map_of (data s) t = Some records \<and> map_of (schemas s) t = Some sch \<and>
      violates_schema sch r \<and> length records \<ge> max_records s"
  then show "insert_record e s t r = (Inl ADBError, s)"
    using insert_at_limit [of s t records e r] by simp
next
  assume h: "map_of (data s) t = Some records \<and> map_of (schemas s) t = Some sch \<and>
      violates_schema sch r"
  from h show "snd (insert_record e s t r) = s"
    using insert_violation_raises [of s t records sch r e] by simp
  from h show "fst (insert_record e s t r) = Inl ValidationError \<or>
         fst (insert_record e s t r) = Inl ADBError \<or>
         fst (insert_record e s t r) = Inl ValueError"
    using insert_violation_raises [of s t records sch r e] by simp
next
  assume "insert_record e s t r = (Inr b, s')"
  then obtain recs where "map_of (data s) t = Some recs"
    and "map_of (data s') t =
           Some (recs @ [AList.update ''_id'' (VInt (int (length recs) + 1))
                            (AList.update ''_created_at'' (VStr (stamp e)) r)])"
    using insert_success by blast
  then show "\<exists>recs rc. map_of (data s) t = Some recs \<and>
         map_of (data s') t = Some (recs @ [rc]) \<and>
         map_of rc ''_id'' = Some (VInt (int (length recs) + 1))"
    by (intro exI conjI) (assumption, assumption, rule id_of_inserted)
qed

theorem insert_validation_witness:
  "violates_schema users_schema [(''name'', VStr ''toolong'')] \<and>
   limits_printable users_schema \<and>
   insert_record env0 users_one ''users'' [(''name'', VStr ''toolong'')]
     = (Inl ValidationError, users_one) \<and>
   length (the (map_of (data users_full) ''users'')) \<ge> max_records users_full \<and>
   insert_record env0 users_full ''users'' [(''name'', VStr ''toolong'')]
     = (Inl ADBError, users_full) \<and>
   violates_schema limit_schema [(''name'', VStr ''ab'')] \<and>
   insert_record env0 limit_db ''notes'' [(''name'', VStr ''ab'')] = (Inl ValueError, limit_db) \<and>
   insert_record env0 users_empty ''users'' [(''name'', VStr ''ab'')] = (Inr True, users_one) \<and>
   map_of (data users_empty) ''users'' = Some [] \<and>
   (\<exists>rc. map_of (data users_one) ''users'' = Some [rc] \<and> map_of rc ''_id'' = Some (VInt 1))"
proof -
  have f1: "map_of (data users_full) ''users''
      = Some [[(''name'', VStr ''ab''), (''_created_at'', VStr ''2024-01-01T00:00:00''), (''_id'', VInt 1)]]"
    and f2: "max_records users_full = 1"
    using users_full_limit by simp_all
  have f3: "map_of (schemas users_full) ''users'' = Some users_schema"
    by (simp add: users_full_eq users_one_eq users_empty_eq)
  have f4: "length (the (map_of (data users_full) ''users'')) \<ge> max_records users_full"
    by (simp add: f1 f2)
  have h1: "map_of (data users_one) ''users''
      = Some [[(''name'', VStr ''ab''), (''_created_at'', VStr ''2024-01-01T00:00:00''), (''_id'', VInt 1)]]"
    by (simp add: users_one_eq)
  have h2: "map_of (schemas users_one) ''users'' = Some users_schema"
    by (simp add: users_one_eq users_empty_eq)
  have h3: "violates_schema users_schema [(''name'', VStr ''toolong'')]"
    by (simp add: violates_schema_def users_schema_def missing_required_def
          type_mismatch_def length_overflow_def)
  have h4: "length [[(''name'', VStr ''ab''), (''_created_at'', VStr ''2024-01-01T00:00:00''),
      (''_id'', VInt (1 :: int))]] < max_records users_one"
    by (simp add: users_one_eq users_empty_eq staff_empty_eq init_db_def)
  have h5: "fst (insert_record env0 users_empty ''users'' [(''name'', VStr ''ab'')]) = Inr True"
    by (simp add: users_empty_eq staff_empty_eq insert_record_def validate_record_def
          update_indexes_for_insert_def init_db_def env0_def save_database_def
          save_interval_def users_schema_def Let_def)
  then have h6: "insert_record env0 users_empty ''users'' [(''name'', VStr ''ab'')] = (Inr True, users_one)"
    by (metis prod.collapse users_one_def)
  have h7: "map_of (data users_empty) ''users'' = Some []"
    by (simp add: users_empty_eq)
  have h8: "limits_printable users_schema"
    by (simp add: limits_printable_def users_schema_def int_printable_small)
  from insert_validation [of users_one "''users''"
      "[[(''name'', VStr ''ab''), (''_created_at'', VStr ''2024-01-01T00:00:00''), (''_id'', VInt 1)]]"
      users_schema "[(''name'', VStr ''toolong'')]" env0] h1 h2 h3 h4 h8
  have a: "insert_record env0 users_one ''users'' [(''name'', VStr ''toolong'')]
     = (Inl ValidationError, users_one)" by simp
  from insert_validation [of users_empty "''users''" "[]" users_schema "[(''name'', VStr ''ab'')]"
      env0 True users_one, THEN conjunct2, THEN conjunct2, THEN conjunct2, THEN mp, OF h6]
  obtain recs rc where r1: "map_of (data users_empty) ''users'' = Some recs"
    and r2: "map_of (data users_one) ''users'' = Some (recs @ [rc])"
    and r3: "map_of rc ''_id'' = Some (VInt (int (length recs) + 1))"
    by (elim exE conjE)
  from r1 h7 have "recs = []" by simp
  with r2 r3 have b: "\<exists>rc. map_of (data users_one) ''users'' = Some [rc] \<and> map_of rc ''_id'' = Some (VInt 1)"
    by (intro exI [of _ rc]) simp
  have "map_of (data users_full) ''users''
      = Some [[(''name'', VStr ''ab''), (''_created_at'', VStr ''2024-01-01T00:00:00''), (''_id'', VInt 1)]] \<and>
    map_of (schemas users_full) ''users'' = Some users_schema \<and>
    violates_schema users_schema [(''name'', VStr ''toolong'')] \<and>
    length [[(''name'', VStr ''ab''), (''_created_at'', VStr ''2024-01-01T00:00:00''),
      (''_id'', VInt (1 :: int))]] \<ge> max_records users_full"
    using f1 f2 f3 h3 by simp
  from insert_validation [of users_full "''users''"
      "[[(''name'', VStr ''ab''), (''_created_at'', VStr ''2024-01-01T00:00:00''), (''_id'', VInt 1)]]"
      users_schema "[(''name'', VStr ''toolong'')]" env0, THEN conjunct2, THEN conjunct1, THEN mp, OF this]
  have c: "insert_record env0 users_full ''users'' [(''name'', VStr ''toolong'')]
     = (Inl ADBError, users_full)" .
  have g1: "violates_schema limit_schema [(''name'', VStr ''ab'')]"
    using limit_schema_violated by simp
  have "map_of (data limit_db) ''notes'' = Some [] \<and>
    map_of (schemas limit_db) ''notes'' = Some limit_schema \<and>
    violates_schema limit_schema [(''name'', VStr ''ab'')]"
    using g1 by (simp add: limit_db_eq)
  from insert_validation [of limit_db "''notes''" "[]" limit_schema "[(''name'', VStr ''ab'')]" env0,
      THEN conjunct2, THEN conjunct2, THEN conjunct1, THEN mp, OF this]
  have g2: "snd (insert_record env0 limit_db ''notes'' [(''name'', VStr ''ab'')]) = limit_db"
    by (elim conjE)
  have g3: "fst (insert_record env0 limit_db ''notes'' [(''name'', VStr ''ab'')]) = Inl ValueError"
    using insert_unprintable_limit [of limit_db "''notes''" "[]" env0]
    by (simp add: limit_db_eq staff_empty_eq init_db_def)
  from g2 g3 have d: "insert_record env0 limit_db ''notes'' [(''name'', VStr ''ab'')]
      = (Inl ValueError, limit_db)"
    by (metis prod.collapse)
  from a b c d f4 g1 h3 h6 h7 h8 show ?thesis by (intro conjI)
qed

section \<open>The \<^verbatim>\<open>$group\<close> stage\<close>

text \<open>
  On hashable values Python equality is equality of the dictionary keys, and a
  string field name is always hashable, so \<^verbatim>\<open>record.get\<close> does not raise.
\<close>

lemma py_eq_norm_key:
  "hashable a \<Longrightarrow> hashable b \<Longrightarrow> py_eq a b = (norm_key a = norm_key b)"
  by (cases a; cases b) (auto simp: norm_key_def)

lemma hashable_group_key_get:
  "record_get r (VStr f) (VStr ''null'') = Inr (group_key f r)"
  by (simp add: record_get_def group_key_def split: option.splits)

lemma group_loop_fold:
  "list_all (\<lambda>r. hashable (group_key f r)) rs \<Longrightarrow>
   group_loop (VStr f) rs acc = Inr (fold (\<lambda>r a. group_add a (group_key f r)) rs acc)"
  by (induction rs arbitrary: acc) (simp_all add: hashable_group_key_get)

lemma group_loop_unhashable:
  "\<not> list_all (\<lambda>r. hashable (group_key f r)) rs \<Longrightarrow>
   group_loop (VStr f) rs acc = Inl TypeError"
  by (induction rs arbitrary: acc) (auto simp: hashable_group_key_get)

lemma hashable_iff:
  "hashable v = (\<not> is_list v \<and> \<not> is_dict v)"
  by (cases v) (simp_all add: is_list_def is_dict_def)

lemma group_add_keys:
  "list_all (\<lambda>kn. hashable (fst kn)) acc \<Longrightarrow> hashable k \<Longrightarrow>
   (\<lambda>kn. norm_key (fst kn)) ` set (group_add acc k) = insert (norm_key k) ((\<lambda>kn. norm_key (fst kn)) ` set acc)"
proof (induction acc)
  case Nil
  then show ?case by simp
next
  case (Cons kn acc)
  obtain k' n where kn: "kn = (k', n)" by force
  from kn Cons.prems have h: "list_all (\<lambda>kn. hashable (fst kn)) acc" and hk: "hashable k'"
    by simp_all
  show ?case
  proof (cases "py_eq k' k")
    case True
    with hk Cons.prems(2) have "norm_key k' = norm_key k" by (simp add: py_eq_norm_key)
    with True kn show ?thesis by auto
  next
    case False
    have "(\<lambda>kn. norm_key (fst kn)) ` set (group_add acc k)
          = insert (norm_key k) ((\<lambda>kn. norm_key (fst kn)) ` set acc)"
      using h Cons.prems(2) by (rule Cons.IH)
    with False kn show ?thesis by auto
  qed
qed

lemma group_add_hashable:
  "list_all (\<lambda>kn. hashable (fst kn)) acc \<Longrightarrow> hashable k \<Longrightarrow>
   list_all (\<lambda>kn. hashable (fst kn)) (group_add acc k)"
  by (induction acc) auto

lemma group_add_distinct:
  "list_all (\<lambda>kn. hashable (fst kn)) acc \<Longrightarrow> hashable k \<Longrightarrow>
   distinct (map (\<lambda>kn. norm_key (fst kn)) acc) \<Longrightarrow>
   distinct (map (\<lambda>kn. norm_key (fst kn)) (group_add acc k))"
proof (induction acc)
  case Nil
  then show ?case by simp
next
  case (Cons kn acc)
  obtain k' n where kn: "kn = (k', n)" by force
  show ?case
  proof (cases "py_eq k' k")
    case True
    with kn Cons.prems show ?thesis by simp
  next
    case False
    with kn Cons.prems have ne: "norm_key k' \<noteq> norm_key k" by (simp add: py_eq_norm_key)
    from kn Cons.prems have h: "list_all (\<lambda>kn. hashable (fst kn)) acc" by simp
    have "(\<lambda>kn. norm_key (fst kn)) ` set (group_add acc k)
          = insert (norm_key k) ((\<lambda>kn. norm_key (fst kn)) ` set acc)"
      using h Cons.prems(2) by (rule group_add_keys)
    with ne kn Cons.prems have "norm_key k' \<notin> (\<lambda>kn. norm_key (fst kn)) ` set (group_add acc k)"
      by auto
    moreover from Cons h kn have "distinct (map (\<lambda>kn. norm_key (fst kn)) (group_add acc k))"
      by simp
    ultimately show ?thesis using kn False by simp
  qed
qed

lemma group_add_map_of:
  "list_all (\<lambda>kn. hashable (fst kn)) acc \<Longrightarrow> hashable k \<Longrightarrow>
   map_of (map (\<lambda>kn. (norm_key (fst kn), snd kn)) (group_add acc k)) x =
     (if x = norm_key k
      then Some (case map_of (map (\<lambda>kn. (norm_key (fst kn), snd kn)) acc) x of
                   None \<Rightarrow> 1 | Some n \<Rightarrow> n + 1)
      else map_of (map (\<lambda>kn. (norm_key (fst kn), snd kn)) acc) x)"
  by (induction acc) (auto simp: py_eq_norm_key)

lemma key_count_snoc:
  "key_count f x (seen @ [r]) = key_count f x seen + (if norm_key (group_key f r) = x then 1 else 0)"
  by (simp add: key_count_def)

lemma counts_ok_step:
  assumes "counts_ok f acc seen" "hashable (group_key f r)"
  shows "counts_ok f (group_add acc (group_key f r)) (seen @ [r])"
proof -
  from assms(1) have d: "distinct (map (\<lambda>kn. norm_key (fst kn)) acc)"
    and h: "list_all (\<lambda>kn. hashable (fst kn)) acc"
    and m: "\<And>x. map_of (map (\<lambda>kn. (norm_key (fst kn), snd kn)) acc) x =
            (if key_count f x seen > 0 then Some (key_count f x seen) else None)"
    by (simp_all add: counts_ok_def)
  have "\<And>x. map_of (map (\<lambda>kn. (norm_key (fst kn), snd kn)) (group_add acc (group_key f r))) x =
            (if key_count f x (seen @ [r]) > 0 then Some (key_count f x (seen @ [r])) else None)"
    by (simp add: group_add_map_of [OF h assms(2)] m key_count_snoc)
  with group_add_distinct [OF h assms(2) d] group_add_hashable [OF h assms(2)]
  show ?thesis by (simp add: counts_ok_def)
qed

lemma counts_ok_fold:
  "counts_ok f acc seen \<Longrightarrow> list_all (\<lambda>r. hashable (group_key f r)) rs \<Longrightarrow>
   counts_ok f (fold (\<lambda>r a. group_add a (group_key f r)) rs acc) (seen @ rs)"
proof (induction rs arbitrary: acc seen)
  case Nil
  then show ?case by simp
next
  case (Cons r rs)
  from Cons.prems have "counts_ok f (group_add acc (group_key f r)) (seen @ [r])"
    by (simp add: counts_ok_step)
  with Cons.IH [of "group_add acc (group_key f r)" "seen @ [r]"] Cons.prems
  show ?case by simp
qed

lemma counts_ok_empty: "counts_ok f [] []"
  by (simp add: counts_ok_def key_count_def)

lemma counts_ok_result:
  assumes "counts_ok f res rs"
  shows "distinct (map (\<lambda>kn. norm_key (fst kn)) res)"
    and "(\<lambda>kn. norm_key (fst kn)) ` set res = (\<lambda>r. norm_key (group_key f r)) ` set rs"
    and "\<And>kn. kn \<in> set res \<Longrightarrow> snd kn = key_count f (norm_key (fst kn)) rs \<and> snd kn > 0"
proof -
  let ?m = "map_of (map (\<lambda>kn. (norm_key (fst kn), snd kn)) res)"
  from assms have d: "distinct (map (\<lambda>kn. norm_key (fst kn)) res)"
    and m: "\<And>x. ?m x = (if key_count f x rs > 0 then Some (key_count f x rs) else None)"
    by (simp_all add: counts_ok_def)
  show "distinct (map (\<lambda>kn. norm_key (fst kn)) res)" by (rule d)
  have "dom ?m = (\<lambda>kn. norm_key (fst kn)) ` set res"
    by (simp add: dom_map_of_conv_image_fst image_image)
  moreover have "dom ?m = {x. key_count f x rs > 0}"
    by (auto simp: m dom_def)
  moreover have "{x. key_count f x rs > 0} = (\<lambda>r. norm_key (group_key f r)) ` set rs"
    by (auto simp: key_count_def filter_empty_conv)
  ultimately show "(\<lambda>kn. norm_key (fst kn)) ` set res = (\<lambda>r. norm_key (group_key f r)) ` set rs"
    by simp
  fix kn assume "kn \<in> set res"
  then have "(norm_key (fst kn), snd kn) \<in> set (map (\<lambda>kn. (norm_key (fst kn), snd kn)) res)"
    by force
  moreover have "distinct (map fst (map (\<lambda>kn. (norm_key (fst kn), snd kn)) res))"
    using d by (simp add: comp_def)
  ultimately have "?m (norm_key (fst kn)) = Some (snd kn)"
    by (rule map_of_is_SomeI [rotated])
  with m [of "norm_key (fst kn)"]
  show "snd kn = key_count f (norm_key (fst kn)) rs \<and> snd kn > 0"
    by (auto split: if_splits)
qed

lemma run_pipeline_append:
  "run_pipeline (p @ q) records =
     (case run_pipeline p records of Inl err \<Rightarrow> Inl err | Inr ws \<Rightarrow> run_pipeline q ws)"
  by (induction p arbitrary: records) (simp_all split: sum.splits)

lemma run_stage_group:
  "run_stage (group_stage f) ws =
     (case group_loop (VStr f) ws [] of Inl err \<Rightarrow> Inl err | Inr result \<Rightarrow> Inr (map group_record result))"
  by (simp add: run_stage_def group_stage_def)

lemma tagged_db_eq:
  "tagged_db = staff_empty\<lparr>data := [(''staff'',
      [[(''tags'', VList [VStr ''a'']), (''_created_at'', VStr ''2024-01-01T00:00:00''), (''_id'', VInt 1)]])]\<rparr>"
  by (simp add: tagged_db_def staff_empty_eq insert_record_def validate_record_def
        update_indexes_for_insert_def init_db_def env0_def save_database_def
        save_interval_def Let_def)

lemma mixed_group:
  "run_stage (group_stage ''dept'') mixed_records =
     Inr [[(''_id'', VStr ''eng''), (''count'', VInt 1)],
          [(''_id'', VStr ''null''), (''count'', VInt 2)],
          [(''_id'', VBool True), (''count'', VInt 2)]]"
  by (simp add: mixed_records_def run_stage_def group_stage_def record_get_def group_record_def)

lemma staff_aggregate:
  "aggregate staff_three ''staff'' [[(''$match'', VDict [(''dept'', VStr ''eng'')])], group_stage ''dept'']
     = Inr [[(''_id'', VStr ''eng''), (''count'', VInt 2)]] \<and>
   aggregate staff_deleted ''staff'' [[(''$match'', VDict [(''dept'', VStr ''eng'')])], group_stage ''dept'']
     = Inr [[(''_id'', VStr ''eng''), (''count'', VInt 1)]]"
  by (simp add: staff_deleted_eq staff_indexed_eq staff_three_eq aggregate_def run_stage_def group_stage_def
      record_get_def group_record_def staff_rec_def match_item_def)

text \<open>
  C8, as the specification states it, fails: the \<^verbatim>\<open>tags\<close> field of the only record
  is a list, and the stage \<^verbatim>\<open>{'$group': {'_id': 'tags'}}\<close> raises \<^verbatim>\<open>TypeError\<close>
  (the list is used as a dictionary key) instead of producing a record.
\<close>

theorem group_on_list_value_raises:
  "aggregate tagged_db ''staff'' [group_stage ''tags''] = Inl TypeError"
  by (simp add: tagged_db_eq aggregate_def run_stage_def group_stage_def record_get_def)

text \<open>
  C8, amended: when the \<^verbatim>\<open>byField\<close> value of every record of the working set is
  hashable (\<^verbatim>\<open>None\<close>, a bool, a number or a string, a record without the field
  counting as the string \<^verbatim>\<open>'null'\<close>), the stage replaces the working set by records
  \<^verbatim>\<open>{'_id': key, 'count': N}\<close>, exactly one for every distinct key among the input
  records (keys compared as Python dictionaries do: \<^verbatim>\<open>True\<close> and \<^verbatim>\<open>1\<close> are one key),
  with N the number of input records under that key. When the \<^verbatim>\<open>byField\<close> value of
  some record of the working set is a list or a mapping, the stage raises
  \<^verbatim>\<open>TypeError\<close>, whatever the other records hold. The working set of the last
  stage of a pipeline is what the stages before it made of the table.
\<close>

theorem group_stage_one_record_per_key:
  "(list_all (\<lambda>r. hashable (group_key f r)) ws \<longrightarrow>
      (\<exists>result. run_stage (group_stage f) ws = Inr (map group_record result) \<and>
         distinct (map (\<lambda>kn. norm_key (fst kn)) result) \<and>
         (\<lambda>kn. norm_key (fst kn)) ` set result = (\<lambda>r. norm_key (group_key f r)) ` set ws \<and>
         (\<forall>kn \<in> set result. snd kn = key_count f (norm_key (fst kn)) ws \<and> snd kn > 0))) \<and>
   ((\<exists>r \<in> set ws. is_list (group_key f r) \<or> is_dict (group_key f r)) \<longrightarrow>
      run_stage (group_stage f) ws = Inl TypeError) \<and>
   (map_of (data s) t = Some records \<longrightarrow>
      aggregate s t (pipeline @ [group_stage f]) =
        (case run_pipeline pipeline records of
           Inl err \<Rightarrow> Inl err
         | Inr ws' \<Rightarrow> run_stage (group_stage f) ws'))"
proof (intro conjI impI)
  assume h: "list_all (\<lambda>r. hashable (group_key f r)) ws"
  let ?res = "fold (\<lambda>r a. group_add a (group_key f r)) ws []"
  have ok: "counts_ok f ?res ws"
    using counts_ok_fold [OF counts_ok_empty h] by simp
  have "run_stage (group_stage f) ws = Inr (map group_record ?res)"
    by (simp add: run_stage_group group_loop_fold [OF h])
  moreover note counts_ok_result(1) [OF ok] counts_ok_result(2) [OF ok]
  moreover have "\<forall>kn \<in> set ?res. snd kn = key_count f (norm_key (fst kn)) ws \<and> snd kn > 0"
    using counts_ok_result(3) [OF ok] by (intro ballI)
  ultimately show "\<exists>result. run_stage (group_stage f) ws = Inr (map group_record result) \<and>
         distinct (map (\<lambda>kn. norm_key (fst kn)) result) \<and>
         (\<lambda>kn. norm_key (fst kn)) ` set result = (\<lambda>r. norm_key (group_key f r)) ` set ws \<and>
         (\<forall>kn \<in> set result. snd kn = key_count f (norm_key (fst kn)) ws \<and> snd kn > 0)"
    by (intro exI [of _ ?res] conjI)
next
  assume "\<exists>r \<in> set ws. is_list (group_key f r) \<or> is_dict (group_key f r)"
  then have "\<not> list_all (\<lambda>r. hashable (group_key f r)) ws"
    by (simp add: list_all_iff hashable_iff)
  then show "run_stage (group_stage f) ws = Inl TypeError"
    by (simp add: run_stage_group group_loop_unhashable)
next
  assume "map_of (data s) t = Some records"
  then show "aggregate s t (pipeline @ [group_stage f]) =
        (case run_pipeline pipeline records of
           Inl err \<Rightarrow> Inl err
         | Inr ws' \<Rightarrow> run_stage (group_stage f) ws')"
    by (simp add: aggregate_def run_pipeline_append split: sum.splits)
qed

theorem group_stage_one_record_per_key_witness:
  "list_all (\<lambda>r. hashable (group_key ''dept'' r)) mixed_records \<and>
   run_stage (group_stage ''dept'') mixed_records =
     Inr [[(''_id'', VStr ''eng''), (''count'', VInt 1)],
          [(''_id'', VStr ''null''), (''count'', VInt 2)],
          [(''_id'', VBool True), (''count'', VInt 2)]] \<and>
   (\<exists>result. run_stage (group_stage ''dept'') mixed_records = Inr (map group_record result) \<and>
      distinct (map (\<lambda>kn. norm_key (fst kn)) result) \<and>
      (\<lambda>kn. norm_key (fst kn)) ` set result = (\<lambda>r. norm_key (group_key ''dept'' r)) ` set mixed_records \<and>
      (\<forall>kn \<in> set result. snd kn = key_count ''dept'' (norm_key (fst kn)) mixed_records \<and> snd kn > 0)) \<and>
   is_list (group_key ''tags'' [(''tags'', VList [VStr ''a''])]) \<and>
   run_stage (group_stage ''tags'') [[(''dept'', VStr ''eng'')], [(''tags'', VList [VStr ''a''])]]
     = Inl TypeError \<and>
   is_dict (group_key ''meta'' [(''meta'', VDict [(''k'', VInt 1)])]) \<and>
   run_stage (group_stage ''meta'') [[(''meta'', VDict [(''k'', VInt 1)])], [(''meta'', VInt 2)]]
     = Inl TypeError \<and>
   map_of (data staff_three) ''staff'' = Some [staff_rec ''eng'' 20 1, staff_rec ''eng'' 40 2, staff_rec ''hr'' 30 3] \<and>
   aggregate staff_three ''staff'' ([[(''$match'', VDict [(''dept'', VStr ''eng'')])]] @ [group_stage ''dept''])
     = Inr [[(''_id'', VStr ''eng''), (''count'', VInt 2)]]"
proof -
  have l1: "is_list (group_key ''tags'' [(''tags'', VList [VStr ''a''])])"
    by (simp add: group_key_def is_list_def)
  then have l2: "\<exists>r \<in> set [[(''dept'', VStr ''eng'')], [(''tags'', VList [VStr ''a''])]].
      is_list (group_key ''tags'' r) \<or> is_dict (group_key ''tags'' r)"
    by simp
  have d1: "is_dict (group_key ''meta'' [(''meta'', VDict [(''k'', VInt 1)])])"
    by (simp add: group_key_def is_dict_def)
  then have d2: "\<exists>r \<in> set [[(''meta'', VDict [(''k'', VInt 1)])], [(''meta'', VInt 2)]].
      is_list (group_key ''meta'' r) \<or> is_dict (group_key ''meta'' r)"
    by simp
  from group_stage_one_record_per_key [of "''tags''"
      "[[(''dept'', VStr ''eng'')], [(''tags'', VList [VStr ''a''])]]",
      THEN conjunct2, THEN conjunct1, THEN mp, OF l2]
  have l3: "run_stage (group_stage ''tags'') [[(''dept'', VStr ''eng'')], [(''tags'', VList [VStr ''a''])]]
     = Inl TypeError" .
  from group_stage_one_record_per_key [of "''meta''"
      "[[(''meta'', VDict [(''k'', VInt 1)])], [(''meta'', VInt 2)]]",
      THEN conjunct2, THEN conjunct1, THEN mp, OF d2]
  have d3: "run_stage (group_stage ''meta'') [[(''meta'', VDict [(''k'', VInt 1)])], [(''meta'', VInt 2)]]
     = Inl TypeError" .
  have h1: "list_all (\<lambda>r. hashable (group_key ''dept'' r)) mixed_records"
    by (simp add: mixed_records_def group_key_def)
  have h2: "map_of (data staff_three) ''staff'' = Some [staff_rec ''eng'' 20 1, staff_rec ''eng'' 40 2, staff_rec ''hr'' 30 3]"
    by (simp add: staff_three_eq)
  note t = group_stage_one_record_per_key [of "''dept''" mixed_records staff_three "''staff''"
      "[staff_rec ''eng'' 20 1, staff_rec ''eng'' 40 2, staff_rec ''hr'' 30 3]"
      "[[(''$match'', VDict [(''dept'', VStr ''eng'')])]]"]
  from t [THEN conjunct1, THEN mp, OF h1]
  have a: "\<exists>result. run_stage (group_stage ''dept'') mixed_records = Inr (map group_record result) \<and>
      distinct (map (\<lambda>kn. norm_key (fst kn)) result) \<and>
      (\<lambda>kn. norm_key (fst kn)) ` set result = (\<lambda>r. norm_key (group_key ''dept'' r)) ` set mixed_records \<and>
      (\<forall>kn \<in> set result. snd kn = key_count ''dept'' (norm_key (fst kn)) mixed_records \<and> snd kn > 0)" .
  from t [THEN conjunct2, THEN conjunct2, THEN mp, OF h2]
  have b: "aggregate staff_three ''staff'' ([[(''$match'', VDict [(''dept'', VStr ''eng'')])]] @ [group_stage ''dept''])
     = Inr [[(''_id'', VStr ''eng''), (''count'', VInt 2)]]"
    by (simp add: run_stage_def group_stage_def record_get_def group_record_def staff_rec_def
          match_item_def)
  from h1 mixed_group a l1 l3 d1 d3 h2 b show ?thesis by (intro conjI)
qed

section \<open>The caller's record\<close>

lemma insert_by_ref_store:
  assumes "a < length h"
  shows "take (length h) (snd (insert_by_ref e s h t a)) = h"
  by (simp add: insert_by_ref_def Let_def split: option.splits sum.splits prod.splits)

lemma insert_by_ref_refines:
  "fst (insert_by_ref e s h t a) = insert_record e s t (h ! a)"
  by (simp add: insert_by_ref_def insert_record_def Let_def split: option.splits sum.splits prod.splits)

lemma insert_by_ref_copy:
  assumes "insert_by_ref e s h t a = ((Inr b, s'), h')"
  shows "length h' = length h + 1 \<and>
         h' ! length h = AList.update ''_id'' (VInt (int (length (the (map_of (data s) t))) + 1))
                           (AList.update ''_created_at'' (VStr (stamp e)) (h ! a))"
  using assms
  by (auto simp: insert_by_ref_def Let_def split: option.splits sum.splits prod.splits if_splits)

text \<open>
  C10: whatever \<^verbatim>\<open>insert\<close> does (return or raise), the caller's dict, and every
  other object that existed before the call, has the content it had; the call
  has the effect on the database that \<^verbatim>\<open>insert\<close> has on the content of the caller's
  dict; and when the call returns, one object was allocated, the copy, which
  carries the caller's items with \<^verbatim>\<open>_created_at\<close> and \<^verbatim>\<open>_id\<close> added and is the
  record appended to the table.
\<close>

theorem insert_leaves_caller_record:
  assumes "a < length h"
  shows "snd (insert_by_ref e s h t a) ! a = h ! a \<and>
         take (length h) (snd (insert_by_ref e s h t a)) = h \<and>
         fst (insert_by_ref e s h t a) = insert_record e s t (h ! a) \<and>
         (\<forall>b s' h'. insert_by_ref e s h t a = ((Inr b, s'), h') \<longrightarrow>
            length h' = length h + 1 \<and>
            (\<exists>records. map_of (data s) t = Some records \<and>
               map_of (data s') t = Some (records @ [h' ! length h]) \<and>
               h' ! length h =
                 AList.update ''_id'' (VInt (int (length records) + 1))
                   (AList.update ''_created_at'' (VStr (stamp e)) (h ! a))))"
proof (intro conjI allI impI)
  have tk: "take (length h) (snd (insert_by_ref e s h t a)) = h"
    using assms by (rule insert_by_ref_store)
  show "take (length h) (snd (insert_by_ref e s h t a)) = h" by (rule tk)
  have "take (length h) (snd (insert_by_ref e s h t a)) ! a = snd (insert_by_ref e s h t a) ! a"
    using assms by simp
  with tk show "snd (insert_by_ref e s h t a) ! a = h ! a" by simp
  show "fst (insert_by_ref e s h t a) = insert_record e s t (h ! a)"
    by (rule insert_by_ref_refines)
next
  fix b s' h'
  assume r: "insert_by_ref e s h t a = ((Inr b, s'), h')"
  from insert_by_ref_copy [OF r] show "length h' = length h + 1" by simp
next
  fix b s' h'
  assume r: "insert_by_ref e s h t a = ((Inr b, s'), h')"
  have "fst (insert_by_ref e s h t a) = insert_record e s t (h ! a)"
    by (rule insert_by_ref_refines)
  with r have ir: "insert_record e s t (h ! a) = (Inr b, s')" by simp
  from insert_success [OF ir] obtain records where t: "map_of (data s) t = Some records"
    and d: "map_of (data s') t =
             Some (records @ [AList.update ''_id'' (VInt (int (length records) + 1))
                                (AList.update ''_created_at'' (VStr (stamp e)) (h ! a))])"
    by (elim exE conjE)
  from insert_by_ref_copy [OF r] t
  have c: "h' ! length h = AList.update ''_id'' (VInt (int (length records) + 1))
                   (AList.update ''_created_at'' (VStr (stamp e)) (h ! a))" by simp
  from t d c show "\<exists>records. map_of (data s) t = Some records \<and>
               map_of (data s') t = Some (records @ [h' ! length h]) \<and>
               h' ! length h =
                 AList.update ''_id'' (VInt (int (length records) + 1))
                   (AList.update ''_created_at'' (VStr (stamp e)) (h ! a))"
    by (intro exI [of _ records]) simp
qed

lemma users_insert_by_ref_eq:
  "insert_by_ref env0 users_empty [[(''name'', VStr ''ab'')]] ''users'' 0 =
     ((Inr True, users_one),
      [[(''name'', VStr ''ab'')],
       [(''name'', VStr ''ab''), (''_created_at'', VStr ''2024-01-01T00:00:00''), (''_id'', VInt 1)]])"
  by (simp add: insert_by_ref_def users_one_eq users_empty_eq staff_empty_eq validate_record_def
        update_indexes_for_insert_def init_db_def env0_def save_database_def
        save_interval_def users_schema_def Let_def)

theorem insert_leaves_caller_record_witness:
  "(0 :: nat) < length [[(''name'', VStr ''ab'')]] \<and>
   insert_by_ref env0 users_empty [[(''name'', VStr ''ab'')]] ''users'' 0 =
     ((Inr True, users_one),
      [[(''name'', VStr ''ab'')],
       [(''name'', VStr ''ab''), (''_created_at'', VStr ''2024-01-01T00:00:00''), (''_id'', VInt 1)]]) \<and>
   snd (insert_by_ref env0 users_empty [[(''name'', VStr ''ab'')]] ''users'' 0) ! 0
     = [(''name'', VStr ''ab'')] \<and>
   (\<exists>records. map_of (data users_empty) ''users'' = Some records \<and>
      map_of (data users_one) ''users'' = Some (records @
        [[(''name'', VStr ''ab''), (''_created_at'', VStr ''2024-01-01T00:00:00''), (''_id'', VInt 1)]]))"
proof -
  have h1: "(0 :: nat) < length [[(''name'', VStr ''ab'')]]" by simp
  note t = insert_leaves_caller_record [OF h1, of env0 users_empty "''users''"]
  from t [THEN conjunct1]
  have a: "snd (insert_by_ref env0 users_empty [[(''name'', VStr ''ab'')]] ''users'' 0) ! 0
     = [(''name'', VStr ''ab'')]" by simp
  from t [THEN conjunct2, THEN conjunct2, THEN conjunct2, THEN spec, THEN spec, THEN spec, THEN mp,
      OF users_insert_by_ref_eq]
  have b: "\<exists>records. map_of (data users_empty) ''users'' = Some records \<and>
      map_of (data users_one) ''users'' = Some (records @
        [[(''name'', VStr ''ab''), (''_created_at'', VStr ''2024-01-01T00:00:00''), (''_id'', VInt 1)]])"
    by (elim conjE exE) (intro exI conjI, assumption, simp)
  from h1 users_insert_by_ref_eq a b show ?thesis by (intro conjI)
qed

end
